theory Spec2Isabelle
  imports Main "HOL-Library.Sublist"
begin

section \<open>JavaScript strings\<close>

text \<open>
  A JavaScript string is a sequence of UTF-16 code units. The model uses \<^typ>\<open>string\<close>
  and reads a \<^typ>\<open>char\<close> as a code unit below 256 (ISO 8859-1), so \<open>length\<close> is
  the \<open>.length\<close> of the source on such strings. \<open>isSpace\<close> is the class \<open>\s\<close> of the
  regular expressions, which is also what \<open>String.prototype.trim\<close> removes: TAB, LF, VT,
  FF, CR, SPACE and NBSP are its members below 256.
\<close>

definition isSpace :: "char \<Rightarrow> bool" where
  "isSpace c = (of_char c \<in> {9::nat, 10, 11, 12, 13, 32, 160})"

text \<open>The class \<open>\w\<close>: \<open>[A-Za-z0-9_]\<close>.\<close>

definition isWord :: "char \<Rightarrow> bool" where
  "isWord c = (let n = (of_char c :: nat) in
     (48 \<le> n \<and> n \<le> 57) \<or> (65 \<le> n \<and> n \<le> 90) \<or> n = 95 \<or> (97 \<le> n \<and> n \<le> 122))"

definition trim :: "string \<Rightarrow> string" where
  "trim s = rev (dropWhile isSpace (rev (dropWhile isSpace s)))"

definition lowerChar :: "char \<Rightarrow> char" where
  "lowerChar c = (let n = (of_char c :: nat) in
     if (65 \<le> n \<and> n \<le> 90) \<or> (192 \<le> n \<and> n \<le> 222 \<and> n \<noteq> 215)
     then char_of (n + 32) else c)"

definition toLowerCase :: "string \<Rightarrow> string" where
  "toLowerCase s = map lowerChar s"

text \<open>\<open>s.includes(sub)\<close>: \<open>sub\<close> occurs in \<open>s\<close> as a contiguous substring.\<close>

fun strIncludes :: "string \<Rightarrow> string \<Rightarrow> bool" where
  "strIncludes [] sub = (sub = [])"
| "strIncludes (c # cs) sub = (prefix sub (c # cs) \<or> strIncludes cs sub)"

text \<open>\<open>s.replace(/\s+/g, ' ')\<close>: every maximal run of white space becomes one space.\<close>

function collapseSpaces :: "string \<Rightarrow> string" where
  "collapseSpaces [] = []"
| "collapseSpaces (c # cs) =
     (if isSpace c then CHR '' '' # collapseSpaces (dropWhile isSpace cs)
      else c # collapseSpaces cs)"
  by pat_completeness auto
termination
  by (relation "measure length") (auto simp: le_imp_less_Suc length_dropWhile_le)

text \<open>
  \<open>s.replace(/\n\s*\n/g, '\n\n')\<close>. At a line feed the greedy \<open>\s*\<close> takes the whole
  run of white space that follows and backtracks to the last line feed in it; when the
  run holds no line feed there is no match at this position. \<open>lastLF run\<close> is the length of
  the shortest prefix of \<open>run\<close> that ends in the last line feed of \<open>run\<close> (0 when there is
  none).
\<close>

definition lastLF :: "string \<Rightarrow> nat" where
  "lastLF run = length run - length (takeWhile (\<lambda>c. c \<noteq> CHR 0x0A) (rev run))"

function collapseBlankLines :: "string \<Rightarrow> string" where
  "collapseBlankLines [] = []"
| "collapseBlankLines (c # cs) =
     (if c = CHR 0x0A \<and> CHR 0x0A \<in> set (takeWhile isSpace cs)
      then CHR 0x0A # CHR 0x0A # collapseBlankLines (drop (lastLF (takeWhile isSpace cs)) cs)
      else c # collapseBlankLines cs)"
  by pat_completeness auto
termination
  by (relation "measure length") auto

text \<open>
  \<open>className.match(/<hint>(\w+)/)?.[1]\<close>: the leftmost position where \<open>hint\<close> is followed
  by a word character; the group is the longest run of word characters there.
\<close>

fun matchHint :: "string \<Rightarrow> string \<Rightarrow> string option" where
  "matchHint hint [] = None"
| "matchHint hint (c # cs) =
     (if prefix hint (c # cs) \<and> takeWhile isWord (drop (length hint) (c # cs)) \<noteq> []
      then Some (takeWhile isWord (drop (length hint) (c # cs)))
      else matchHint hint cs)"

section \<open>The document tree and the queries of cheerio\<close>

text \<open>
  \<open>cheerio.load(html)\<close> parses the page into a tree of elements, text and comments. The
  parser is the library's; the tree it returns is the input of the model.
\<close>

datatype node =
    TextNode string
  | CommentNode string
  | Element string "(string \<times> string) list" "node list"

type_synonym document = "node list"

text \<open>
  A selected element is kept with the chain of its ancestors, nearest first, so that
  \<open>parent()\<close> and the descendant combinator can be answered.
\<close>

type_synonym elem = "node list \<times> node"

fun attrsOf :: "node \<Rightarrow> (string \<times> string) list" where
  "attrsOf (Element t as cs) = as"
| "attrsOf _ = []"

fun childrenOf :: "node \<Rightarrow> node list" where
  "childrenOf (Element t as cs) = cs"
| "childrenOf _ = []"

fun tagOf :: "node \<Rightarrow> string option" where
  "tagOf (Element t as cs) = Some t"
| "tagOf _ = None"

text \<open>\<open>.attr(name)\<close>: the value of the attribute, \<open>undefined\<close> (None) when it is absent.\<close>

definition attr :: "node \<Rightarrow> string \<Rightarrow> string option" where
  "attr n name = map_of (attrsOf n) name"

text \<open>
  \<open>.text()\<close>: the text nodes at and below the node, concatenated in document order; a
  comment contributes nothing.
\<close>

fun textOf :: "node \<Rightarrow> string" where
  "textOf (TextNode s) = s"
| "textOf (CommentNode s) = []"
| "textOf (Element t as cs) = concat (map textOf cs)"

text \<open>The words of a \<open>class\<close> attribute, separated by white space.\<close>

function splitSpaces :: "string \<Rightarrow> string list" where
  "splitSpaces [] = []"
| "splitSpaces (c # cs) =
     (if isSpace c then splitSpaces cs
      else takeWhile (\<lambda>x. \<not> isSpace x) (c # cs) # splitSpaces (dropWhile (\<lambda>x. \<not> isSpace x) cs))"
  by pat_completeness auto
termination
  by (relation "measure length") (auto simp: le_imp_less_Suc length_dropWhile_le)

definition hasClass :: "node \<Rightarrow> string \<Rightarrow> bool" where
  "hasClass n c = (case attr n ''class'' of None \<Rightarrow> False | Some v \<Rightarrow> c \<in> set (splitSpaces v))"

text \<open>
  The selectors the source uses: a tag name, \<open>[a]\<close>, \<open>[a="v"]\<close>, \<open>.c\<close>, a compound of two
  (\<open>time[datetime]\<close>), the descendant combinator (\<open>pre code\<close>) and the comma.
\<close>

datatype selector =
    Tag string
  | HasAttr string
  | AttrEq string string
  | Class string
  | Both selector selector
  | Desc selector selector
  | Either selector selector

text \<open>\<open>matchesSel sel anc n\<close>: node \<open>n\<close>, below the ancestors \<open>anc\<close> (nearest first), matches.\<close>

fun matchesSel :: "selector \<Rightarrow> node list \<Rightarrow> node \<Rightarrow> bool" where
  "matchesSel (Tag t) anc n = (tagOf n = Some t)"
| "matchesSel (HasAttr a) anc n = (attr n a \<noteq> None)"
| "matchesSel (AttrEq a v) anc n = (attr n a = Some v)"
| "matchesSel (Class c) anc n = hasClass n c"
| "matchesSel (Both s1 s2) anc n = (matchesSel s1 anc n \<and> matchesSel s2 anc n)"
| "matchesSel (Either s1 s2) anc n = (matchesSel s1 anc n \<or> matchesSel s2 anc n)"
| "matchesSel (Desc s1 s2) anc n =
     (matchesSel s2 anc n \<and>
      list_ex (\<lambda>i. matchesSel s1 (drop (Suc i) anc) (anc ! i)) [0..<length anc])"

text \<open>The elements at and below a node in document order, each with its ancestors.\<close>

fun elementsOf :: "node list \<Rightarrow> node \<Rightarrow> elem list" where
  "elementsOf anc (TextNode s) = []"
| "elementsOf anc (CommentNode s) = []"
| "elementsOf anc (Element t as cs) =
     (anc, Element t as cs) # concat (map (elementsOf (Element t as cs # anc)) cs)"

text \<open>\<open>$(selector)\<close>: the matching elements of the document, in document order.\<close>

definition selectAll :: "document \<Rightarrow> selector \<Rightarrow> elem list" where
  "selectAll doc sel =
     filter (\<lambda>(anc, n). matchesSel sel anc n) (concat (map (elementsOf []) doc))"

text \<open>
  \<open>$element.find(selector)\<close>: the matching elements strictly below the element, in document
  order. The selector is matched within the subtree of the element: an ancestor named by
  a descendant combinator is the element itself or lies below it, never above it (so in
  \<open>find('pre code')\<close> the \<open>pre\<close> may be the element on which \<open>find\<close> is called).
\<close>

definition findSel :: "elem \<Rightarrow> selector \<Rightarrow> elem list" where
  "findSel e sel =
     map (\<lambda>(chain, d). (chain @ snd e # fst e, d))
       (filter (\<lambda>(chain, d). matchesSel sel (chain @ [snd e]) d)
          (concat (map (elementsOf []) (childrenOf (snd e)))))"

text \<open>\<open>.parent()\<close> of an element; the document root has no element above it.\<close>

definition parent :: "elem \<Rightarrow> elem option" where
  "parent e = (case fst e of [] \<Rightarrow> None | p # ps \<Rightarrow> Some (ps, p))"

text \<open>
  \<open>.html()\<close>: the serialised children of the element. Text is escaped except inside the
  raw-text elements, attribute values are escaped and quoted, void elements have no end
  tag.
\<close>

definition escapeText :: "string \<Rightarrow> string" where
  "escapeText s = concat (map (\<lambda>c.
     if c = CHR ''&'' then ''&amp;''
     else if c = CHR ''<'' then ''&lt;''
     else if c = CHR ''>'' then ''&gt;''
     else if of_char c = (160::nat) then ''&nbsp;''
     else [c]) s)"

definition escapeAttr :: "string \<Rightarrow> string" where
  "escapeAttr s = concat (map (\<lambda>c.
     if c = CHR ''&'' then ''&amp;''
     else if c = CHR 0x22 then ''&quot;''
     else if of_char c = (160::nat) then ''&nbsp;''
     else [c]) s)"

definition voidElements :: "string list" where
  "voidElements = [''area'', ''base'', ''basefont'', ''bgsound'', ''br'', ''col'', ''embed'',
     ''frame'', ''hr'', ''img'', ''input'', ''keygen'', ''link'', ''meta'', ''param'',
     ''source'', ''track'', ''wbr'']"

definition rawTextElements :: "string list" where
  "rawTextElements = [''style'', ''script'', ''xmp'', ''iframe'', ''noembed'', ''noframes'',
     ''plaintext'', ''noscript'']"

definition serializeAttrs :: "(string \<times> string) list \<Rightarrow> string" where
  "serializeAttrs as =
     concat (map (\<lambda>(k, v). '' '' @ k @ ''='' @ [CHR 0x22] @ escapeAttr v @ [CHR 0x22]) as)"

fun serialize :: "bool \<Rightarrow> node \<Rightarrow> string" where
  "serialize raw (TextNode s) = (if raw then s else escapeText s)"
| "serialize raw (CommentNode s) = ''<!--'' @ s @ ''-->''"
| "serialize raw (Element t as cs) =
     ''<'' @ t @ serializeAttrs as @ ''>'' @
     (if t \<in> set voidElements then []
      else concat (map (serialize (t \<in> set rawTextElements)) cs) @ ''</'' @ t @ ''>'')"

definition html :: "node \<Rightarrow> string" where
  "html n = (case n of
     Element t as cs \<Rightarrow> concat (map (serialize (t \<in> set rawTextElements)) cs)
   | _ \<Rightarrow> [])"

section \<open>The data model\<close>

text \<open>
  The objects that the two parsers build: the interfaces at the head of
  \<open>api/parse-conversation.ts\<close>, and \<open>Conversation\<close>, \<open>Message\<close>, \<open>MessageContent\<close> and
  \<open>Artifact\<close> of \<open>types/conversation.ts\<close> with the properties that \<open>ChatGPTParser\<close> sets
  (no parser sets \<open>filename\<close>, the \<open>metadata\<close> of an artifact, \<open>tokens\<close>, \<open>model\<close>, \<open>edited\<close>,
  \<open>regenerated\<close>, \<open>totalTokens\<close> or the dates of the conversation metadata). The type
  parameter is the type of the time stamps: an ISO string in the API handler, a \<open>Date\<close> in
  the browser-side parser. A property that a parser may leave \<open>undefined\<close> is an \<open>option\<close>;
  \<open>messageCount\<close> is the length of an array.
\<close>

datatype platform = Chatgpt | Claude | Gemini | Perplexity

datatype messageRole = User | Assistant | System

datatype artifactType = Code | Image | File | Link

record artifact =
  artType :: artifactType
  artContent :: string
  artLanguage :: "string option"

record formattingInfo =
  isMarkdown :: bool
  hasCodeBlocks :: bool
  hasLinks :: bool
  hasImages :: bool

record messageContent =
  contentText :: string
  contentArtifacts :: "artifact list option"
  contentFormatting :: formattingInfo

record 'd message =
  msgId :: string
  msgRole :: messageRole
  msgContent :: messageContent
  msgTimestamp :: 'd
  msgMetadataTimestamp :: 'd

record 'd conversationMetadata =
  metaPlatform :: platform
  metaExtractedAt :: 'd
  metaMessageCount :: nat
  metaTitle :: string
  metaUrl :: "string option"

record 'd conversation =
  convId :: string
  convTitle :: string
  convPlatform :: platform
  convCreatedAt :: 'd
  convUpdatedAt :: 'd
  convMessages :: "'d message list"
  convMetadata :: "'d conversationMetadata"

text \<open>A \<open>Date\<close> object: its time value in milliseconds, or the invalid date (NaN).\<close>

datatype date = Date int | InvalidDate

section \<open>The environment\<close>

text \<open>
  What the source takes from outside: the identifiers \<open>uuidv4()\<close> returns and the clock
  \<open>new Date()\<close> reads (each indexed by the number of earlier calls), the rendering
  \<open>toISOString\<close>, the parse of a date string by \<open>new Date(s)\<close> (None for NaN), the HTML
  parser \<open>cheerio.load\<close>, and whether \<open>new URL(s)\<close> accepts a string.
\<close>

record env =
  uuidv4 :: "nat \<Rightarrow> string"
  dateNow :: "nat \<Rightarrow> int"
  toISOString :: "int \<Rightarrow> string"
  dateParse :: "string \<Rightarrow> int option"
  load :: "string \<Rightarrow> document"
  urlParses :: "string \<Rightarrow> bool"

record world =
  uuidCalls :: nat
  dateCalls :: nat

definition nextUuid :: "env \<Rightarrow> world \<Rightarrow> string \<times> world" where
  "nextUuid ev w = (uuidv4 ev (uuidCalls w), w\<lparr>uuidCalls := Suc (uuidCalls w)\<rparr>)"

definition newDate :: "env \<Rightarrow> world \<Rightarrow> int \<times> world" where
  "newDate ev w = (dateNow ev (dateCalls w), w\<lparr>dateCalls := Suc (dateCalls w)\<rparr>)"

datatype parseError = NoMessagesFound | NotAConversationPage

section \<open>api/parse-conversation.ts\<close>

definition metaOgTitle :: selector where
  "metaOgTitle = Both (Tag ''meta'') (AttrEq ''property'' ''og:title'')"

definition titleSelectors :: "selector list" where
  "titleSelectors = [Tag ''title'', Tag ''h1'', AttrEq ''data-testid'' ''conversation-title'',
     Class ''conversation-title'', metaOgTitle]"

text \<open>\<open>title.replace(/^ChatGPT\s*[-|]\s*/, '')\<close>.\<close>

definition stripChatGPTPrefix :: "string \<Rightarrow> string" where
  "stripChatGPTPrefix t =
     (if prefix ''ChatGPT'' t then
        (case dropWhile isSpace (drop 7 t) of
           [] \<Rightarrow> t
         | c # r \<Rightarrow> if c = CHR ''-'' \<or> c = CHR ''|'' then dropWhile isSpace r else t)
      else t)"

fun extractTitleFrom :: "document \<Rightarrow> selector list \<Rightarrow> string" where
  "extractTitleFrom doc [] = ''ChatGPT Conversation''"
| "extractTitleFrom doc (sel # sels) =
     (case selectAll doc sel of
        [] \<Rightarrow> extractTitleFrom doc sels
      | e # es \<Rightarrow>
          (let title = (if sel = metaOgTitle
                        then (case attr (snd e) ''content'' of None \<Rightarrow> [] | Some v \<Rightarrow> v)
                        else trim (textOf (snd e)))
           in if title \<noteq> [] \<and> title \<noteq> ''ChatGPT''
              then (let title' = trim (stripChatGPTPrefix title)
                    in if length title' > 0 then title' else extractTitleFrom doc sels)
              else extractTitleFrom doc sels))"

definition extractTitle :: "document \<Rightarrow> string" where
  "extractTitle doc = extractTitleFrom doc titleSelectors"

definition detectLanguageFromContent :: "string \<Rightarrow> string option" where
  "detectLanguageFromContent content =
     (if strIncludes content ''import '' \<and> strIncludes content ''from '' then Some ''javascript''
      else if strIncludes content ''def '' \<and> strIncludes content '':'' then Some ''python''
      else if strIncludes content ''function '' \<and> strIncludes content ''{'' then Some ''javascript''
      else if strIncludes content ''class '' \<and> strIncludes content ''{'' then Some ''java''
      else if strIncludes content ''<?php'' then Some ''php''
      else if strIncludes content ''#include'' then Some ''cpp''
      else if strIncludes content ''SELECT '' \<or> strIncludes content ''FROM '' then Some ''sql''
      else None)"

definition extractMessageRole :: "elem \<Rightarrow> messageRole" where
  "extractMessageRole e =
     (let roleAttr = attr (snd e) ''data-message-author-role'' in
      if roleAttr = Some ''user'' then User
      else if roleAttr = Some ''assistant'' then Assistant
      else if roleAttr = Some ''system'' then System
      else (let elementText = toLowerCase (textOf (snd e));
                elementHtml = toLowerCase (html (snd e))
            in if length elementText < 50 \<and> \<not> strIncludes elementHtml ''code''
               then User else Assistant))"

text \<open>The language of one \<open>code\<close> element: a class hint, else the content heuristics.\<close>

definition codeLanguage :: "node \<Rightarrow> string \<Rightarrow> string option" where
  "codeLanguage code codeContent =
     (let className = (case attr code ''class'' of None \<Rightarrow> [] | Some v \<Rightarrow> v) in
      case matchHint ''language-'' className of
        Some l \<Rightarrow> Some l
      | None \<Rightarrow> (case matchHint ''lang-'' className of
          Some l \<Rightarrow> Some l
        | None \<Rightarrow> detectLanguageFromContent codeContent))"

text \<open>The body of the \<open>.each\<close> over the \<open>code\<close> elements: the artifacts pushed so far.\<close>

fun codeArtifacts :: "artifact list \<Rightarrow> elem list \<Rightarrow> artifact list" where
  "codeArtifacts acc [] = acc"
| "codeArtifacts acc (c # cs) =
     (let codeContent = trim (textOf (snd c)) in
      if codeContent \<noteq> [] \<and> length codeContent > 10
      then codeArtifacts (acc @ [\<lparr>artType = Code, artContent = codeContent,
                                  artLanguage = codeLanguage (snd c) codeContent\<rparr>]) cs
      else codeArtifacts acc cs)"

definition extractMessageContent :: "elem \<Rightarrow> messageContent" where
  "extractMessageContent e =
     (let text0 = trim (textOf (snd e));
          text1 = trim (collapseBlankLines (collapseSpaces text0));
          codeBlocks = (findSel e (Either (Tag ''code'') (Tag ''pre'')) \<noteq> []);
          links = (findSel e (Tag ''a'') \<noteq> []);
          images = (findSel e (Tag ''img'') \<noteq> []);
          arts = (if codeBlocks then codeArtifacts [] (findSel e (Tag ''code'')) else [])
      in \<lparr>contentText = text1,
          contentArtifacts = (if length arts > 0 then Some arts else None),
          contentFormatting = \<lparr>isMarkdown = True, hasCodeBlocks = codeBlocks,
                                hasLinks = links, hasImages = images\<rparr>\<rparr>)"

definition messageSelectors :: "selector list" where
  "messageSelectors = [HasAttr ''data-message-author-role'', Class ''conversation-turn'',
     AttrEq ''role'' ''presentation'', Class ''group'']"

text \<open>
  The loop over \<open>messageSelectors\<close>: the selection of the first selector that finds an
  element; the empty selection when none does.
\<close>

fun firstSelection :: "document \<Rightarrow> selector list \<Rightarrow> elem list" where
  "firstSelection doc [] = []"
| "firstSelection doc (sel # sels) =
     (if length (selectAll doc sel) > 0 then selectAll doc sel else firstSelection doc sels)"

text \<open>The body of \<open>messageElements.each\<close>: the messages pushed so far and the calls made.\<close>

fun eachMessage :: "env \<Rightarrow> string message list \<times> world \<Rightarrow> elem list \<Rightarrow> string message list \<times> world" where
  "eachMessage ev (messages, w) [] = (messages, w)"
| "eachMessage ev (messages, w) (e # es) =
     (let role = extractMessageRole e;
          content = extractMessageContent e
      in if trim (contentText content) \<noteq> []
         then (let (t, w1) = newDate ev w;
                   timestamp = toISOString ev t;
                   (i, w2) = nextUuid ev w1
               in eachMessage ev (messages @ [\<lparr>msgId = i, msgRole = role, msgContent = content,
                     msgTimestamp = timestamp, msgMetadataTimestamp = timestamp\<rparr>], w2) es)
         else eachMessage ev (messages, w) es)"

definition extractMessages :: "env \<Rightarrow> world \<Rightarrow> document \<Rightarrow> string message list \<times> world" where
  "extractMessages ev w doc = eachMessage ev ([], w) (firstSelection doc messageSelectors)"

definition parseConversationFromHtml ::
  "env \<Rightarrow> world \<Rightarrow> string \<Rightarrow> string \<Rightarrow> parseError + string conversation" where
  "parseConversationFromHtml ev w htmlText originalUrl =
     (let doc = load ev htmlText;
          title = extractTitle doc;
          (messages, w1) = extractMessages ev w doc
      in if length messages = 0 then Inl NoMessagesFound
         else (let (t, w2) = newDate ev w1;
                   now = toISOString ev t;
                   (conversationId, w3) = nextUuid ev w2
               in Inr \<lparr>convId = conversationId, convTitle = title, convPlatform = Chatgpt,
                       convCreatedAt = now, convUpdatedAt = now, convMessages = messages,
                       convMetadata = \<lparr>metaPlatform = Chatgpt, metaExtractedAt = now,
                         metaMessageCount = length messages, metaTitle = title,
                         metaUrl = Some originalUrl\<rparr>\<rparr>))"

section \<open>services/chatgptParser.ts\<close>

text \<open>\<open>PARSING_SELECTORS.chatgpt.messages\<close> of \<open>utils/constants.ts\<close>.\<close>

definition PARSING_SELECTORS_chatgpt_messages :: selector where
  "PARSING_SELECTORS_chatgpt_messages = HasAttr ''data-message-author-role''"

text \<open>\<open>ChatGPTParser.extractTitle\<close> has the body of \<open>extractTitle\<close> above, line for line.\<close>

definition ChatGPTParser_extractTitle :: "document \<Rightarrow> string" where
  "ChatGPTParser_extractTitle doc = extractTitleFrom doc titleSelectors"

definition ChatGPTParser_extractMessageRole :: "elem \<Rightarrow> messageRole" where
  "ChatGPTParser_extractMessageRole e =
     (let roleAttr = attr (snd e) ''data-message-author-role'' in
      if roleAttr = Some ''user'' then User
      else if roleAttr = Some ''assistant'' then Assistant
      else if roleAttr = Some ''system'' then System
      else if hasClass (snd e) ''user-message'' \<or> length (findSel e (Class ''user-message'')) > 0
      then User
      else if hasClass (snd e) ''assistant-message''
              \<or> length (findSel e (Class ''assistant-message'')) > 0
      then Assistant
      else Assistant)"

definition contentSelectors :: "selector list" where
  "contentSelectors = [Class ''markdown'', Class ''prose'', Class ''message-content'',
     HasAttr ''data-message-content'']"

text \<open>The loop over \<open>contentSelectors\<close>: the first hit of the first selector that finds one.\<close>

fun contentElementOf :: "elem \<Rightarrow> selector list \<Rightarrow> elem" where
  "contentElementOf e [] = e"
| "contentElementOf e (sel # sels) =
     (case findSel e sel of [] \<Rightarrow> contentElementOf e sels | f # fs \<Rightarrow> f)"

definition cleanTextContent :: "string \<Rightarrow> string" where
  "cleanTextContent t = trim (collapseBlankLines (collapseSpaces t))"

definition languagePatterns :: "string list" where
  "languagePatterns = [''language-'', ''lang-'', ''highlight-'']"

fun firstHint :: "string list \<Rightarrow> string \<Rightarrow> string option" where
  "firstHint [] className = None"
| "firstHint (p # ps) className =
     (case matchHint p className of Some l \<Rightarrow> Some l | None \<Rightarrow> firstHint ps className)"

definition classOr :: "elem option \<Rightarrow> string" where
  "classOr e = (case e of None \<Rightarrow> []
     | Some x \<Rightarrow> (case attr (snd x) ''class'' of None \<Rightarrow> [] | Some v \<Rightarrow> v))"

definition detectCodeLanguage :: "elem \<Rightarrow> string option" where
  "detectCodeLanguage code =
     (case firstHint languagePatterns (classOr (Some code)) of
        Some l \<Rightarrow> Some l
      | None \<Rightarrow> firstHint languagePatterns (classOr (parent code)))"

fun ChatGPTParser_codeArtifacts :: "artifact list \<Rightarrow> elem list \<Rightarrow> artifact list" where
  "ChatGPTParser_codeArtifacts acc [] = acc"
| "ChatGPTParser_codeArtifacts acc (c # cs) =
     (let codeContent = trim (textOf (snd c));
          language = detectCodeLanguage c
      in if codeContent \<noteq> []
         then ChatGPTParser_codeArtifacts
                (acc @ [\<lparr>artType = Code, artContent = codeContent, artLanguage = language\<rparr>]) cs
         else ChatGPTParser_codeArtifacts acc cs)"

definition ChatGPTParser_extractMessageContent :: "elem \<Rightarrow> messageContent" where
  "ChatGPTParser_extractMessageContent e =
     (let contentElement = contentElementOf e contentSelectors;
          text0 = cleanTextContent (textOf (snd contentElement));
          codeBlocks = (length (findSel contentElement
                          (Either (Tag ''pre'') (Either (Tag ''code'') (Class ''code-block'')))) > 0);
          links = (length (findSel contentElement (Tag ''a'')) > 0);
          images = (length (findSel contentElement (Tag ''img'')) > 0);
          arts = (if codeBlocks
                  then ChatGPTParser_codeArtifacts []
                         (findSel contentElement (Desc (Tag ''pre'') (Tag ''code'')))
                  else [])
      in \<lparr>contentText = text0,
          contentArtifacts = (if length arts > 0 then Some arts else None),
          contentFormatting = \<lparr>isMarkdown = True, hasCodeBlocks = codeBlocks,
                                hasLinks = links, hasImages = images\<rparr>\<rparr>)"

definition extractTimestamp :: "env \<Rightarrow> world \<Rightarrow> elem \<Rightarrow> date \<times> world" where
  "extractTimestamp ev w e =
     (let fallback = (let (t, w1) = newDate ev w in (Date t, w1)) in
      case findSel e (Both (Tag ''time'') (HasAttr ''datetime'')) of
        [] \<Rightarrow> fallback
      | timeElement # rest \<Rightarrow>
          (case attr (snd timeElement) ''datetime'' of
             None \<Rightarrow> fallback
           | Some datetime \<Rightarrow>
               if datetime = [] then fallback
               else (case dateParse ev datetime of
                       None \<Rightarrow> fallback
                     | Some parsed \<Rightarrow> (Date parsed, w))))"

fun ChatGPTParser_eachMessage ::
  "env \<Rightarrow> date message list \<times> world \<Rightarrow> elem list \<Rightarrow> date message list \<times> world" where
  "ChatGPTParser_eachMessage ev (messages, w) [] = (messages, w)"
| "ChatGPTParser_eachMessage ev (messages, w) (e # es) =
     (let role = ChatGPTParser_extractMessageRole e;
          content = ChatGPTParser_extractMessageContent e;
          (timestamp, w1) = extractTimestamp ev w e
      in if trim (contentText content) \<noteq> []
         then (let (i, w2) = nextUuid ev w1
               in ChatGPTParser_eachMessage ev
                    (messages @ [\<lparr>msgId = i, msgRole = role, msgContent = content,
                       msgTimestamp = timestamp, msgMetadataTimestamp = timestamp\<rparr>], w2) es)
         else ChatGPTParser_eachMessage ev (messages, w1) es)"

definition ChatGPTParser_extractMessages ::
  "env \<Rightarrow> world \<Rightarrow> document \<Rightarrow> selector \<Rightarrow> date message list \<times> world" where
  "ChatGPTParser_extractMessages ev w doc messagesSel =
     ChatGPTParser_eachMessage ev ([], w) (selectAll doc messagesSel)"

text \<open>\<open>originalUrl\<close> is an optional parameter: None when the caller leaves it out.\<close>

definition ChatGPTParser_parseFromHtml ::
  "env \<Rightarrow> world \<Rightarrow> string \<Rightarrow> string option \<Rightarrow> parseError + date conversation" where
  "ChatGPTParser_parseFromHtml ev w htmlText originalUrl =
     (let doc = load ev htmlText in
      if \<not> strIncludes htmlText ''chatgpt'' \<and> \<not> strIncludes htmlText ''conversation''
         \<and> \<not> strIncludes htmlText ''message''
      then Inl NotAConversationPage
      else (let title = ChatGPTParser_extractTitle doc;
                (messages, w1) = ChatGPTParser_extractMessages ev w doc
                                   PARSING_SELECTORS_chatgpt_messages
            in if length messages = 0 then Inl NoMessagesFound
               else (let (t, w2) = newDate ev w1;
                         now = Date t;
                         (conversationId, w3) = nextUuid ev w2
                     in Inr \<lparr>convId = conversationId, convTitle = title, convPlatform = Chatgpt,
                             convCreatedAt = now, convUpdatedAt = now, convMessages = messages,
                             convMetadata = \<lparr>metaPlatform = Chatgpt, metaExtractedAt = now,
                               metaMessageCount = length messages, metaTitle = title,
                               metaUrl = originalUrl\<rparr>\<rparr>)))"

section \<open>The request handler of api/parse-conversation.ts\<close>







section \<open>utils/constants.ts and utils/validators.ts\<close>

text \<open>
  The four patterns of \<open>PLATFORMS\<close> have one shape, \<open>/^literal([class]+)$/i\<close>: a literal
  prefix, then one or more characters of a class up to the end of the string, letters
  compared without regard to case.
\<close>

datatype charClass = HexDash | Hex | WordDash

fun inClass :: "charClass \<Rightarrow> char \<Rightarrow> bool" where
  "inClass HexDash c = (let n = (of_char (lowerChar c) :: nat) in
     (97 \<le> n \<and> n \<le> 102) \<or> (48 \<le> n \<and> n \<le> 57) \<or> n = 45)"
| "inClass Hex c = (let n = (of_char (lowerChar c) :: nat) in
     (97 \<le> n \<and> n \<le> 102) \<or> (48 \<le> n \<and> n \<le> 57))"
| "inClass WordDash c = (let n = (of_char (lowerChar c) :: nat) in
     (97 \<le> n \<and> n \<le> 122) \<or> (48 \<le> n \<and> n \<le> 57) \<or> n = 95 \<or> n = 45)"

record urlPattern =
  patLiteral :: string
  patClass :: charClass

record platformConfig =
  pfName :: string
  pfPattern :: urlPattern
  pfBaseUrl :: string

text \<open>\<open>Object.entries(PLATFORMS)\<close>, in the order of the declaration.\<close>

definition PLATFORMS :: "(platform \<times> platformConfig) list" where
  "PLATFORMS =
     [(Chatgpt, \<lparr>pfName = ''ChatGPT'',
          pfPattern = \<lparr>patLiteral = ''https://chatgpt.com/share/'', patClass = HexDash\<rparr>,
          pfBaseUrl = ''https://chatgpt.com''\<rparr>),
      (Claude, \<lparr>pfName = ''Claude'',
          pfPattern = \<lparr>patLiteral = ''https://claude.ai/share/'', patClass = HexDash\<rparr>,
          pfBaseUrl = ''https://claude.ai''\<rparr>),
      (Gemini, \<lparr>pfName = ''Gemini'',
          pfPattern = \<lparr>patLiteral = ''https://gemini.google.com/share/'', patClass = Hex\<rparr>,
          pfBaseUrl = ''https://gemini.google.com''\<rparr>),
      (Perplexity, \<lparr>pfName = ''Perplexity'',
          pfPattern = \<lparr>patLiteral = ''https://www.perplexity.ai/search/'', patClass = WordDash\<rparr>,
          pfBaseUrl = ''https://www.perplexity.ai''\<rparr>)]"

definition ERROR_MESSAGES_INVALID_URL :: string where
  "ERROR_MESSAGES_INVALID_URL = ''Please enter a valid shared chat URL''"

definition ERROR_MESSAGES_UNSUPPORTED_PLATFORM :: string where
  "ERROR_MESSAGES_UNSUPPORTED_PLATFORM = ''This platform is not yet supported''"

text \<open>\<open>s.match(pattern)\<close>: the first group of the match, None when there is no match.\<close>

definition matchPattern :: "urlPattern \<Rightarrow> string \<Rightarrow> string option" where
  "matchPattern p s =
     (let n = length (patLiteral p); rest = drop n s in
      if toLowerCase (take n s) = toLowerCase (patLiteral p) \<and> rest \<noteq> []
         \<and> list_all (inClass (patClass p)) rest
      then Some rest else None)"

record uRLValidationResult =
  isValid :: bool
  resPlatform :: "platform option"
  resChatId :: "string option"
  resError :: "string option"
  resSuggestions :: "string list option"

text \<open>\<open>xs.join(sep)\<close>.\<close>

fun joinWith :: "string \<Rightarrow> string list \<Rightarrow> string" where
  "joinWith sep [] = []"
| "joinWith sep [x] = x"
| "joinWith sep (x # y # ys) = x @ sep @ joinWith sep (y # ys)"

text \<open>The loop over the entries of \<open>PLATFORMS\<close>: the result of the first pattern that matches.\<close>

fun matchPlatforms :: "(platform \<times> platformConfig) list \<Rightarrow> string \<Rightarrow> uRLValidationResult option" where
  "matchPlatforms [] trimmedUrl = None"
| "matchPlatforms ((pf, config) # rest) trimmedUrl =
     (case matchPattern (pfPattern config) trimmedUrl of
        Some chatId \<Rightarrow> Some \<lparr>isValid = True, resPlatform = Some pf, resChatId = Some chatId,
                              resError = None, resSuggestions = None\<rparr>
      | None \<Rightarrow> matchPlatforms rest trimmedUrl)"

definition validateChatURL :: "env \<Rightarrow> string \<Rightarrow> uRLValidationResult" where
  "validateChatURL ev url =
     (if url = []
      then \<lparr>isValid = False, resPlatform = None, resChatId = None,
             resError = Some ERROR_MESSAGES_INVALID_URL, resSuggestions = None\<rparr>
      else (let trimmedUrl = trim url in
        if trimmedUrl = []
        then \<lparr>isValid = False, resPlatform = None, resChatId = None,
               resError = Some ERROR_MESSAGES_INVALID_URL, resSuggestions = None\<rparr>
        else if \<not> urlParses ev trimmedUrl
        then \<lparr>isValid = False, resPlatform = None, resChatId = None,
               resError = Some ERROR_MESSAGES_INVALID_URL,
               resSuggestions = Some [''Make sure the URL starts with https://'',
                 ''Check that the URL is complete and properly formatted'']\<rparr>
        else (case matchPlatforms PLATFORMS trimmedUrl of
            Some r \<Rightarrow> r
          | None \<Rightarrow>
              (let supportedPlatforms = joinWith '', '' (map (\<lambda>(pf, config). pfName config) PLATFORMS)
               in \<lparr>isValid = False, resPlatform = None, resChatId = None,
                    resError = Some ERROR_MESSAGES_UNSUPPORTED_PLATFORM,
                    resSuggestions = Some [''Supported platforms: '' @ supportedPlatforms,
                      ''Make sure you'' @ [CHR 0x27] @ ''re using a shared chat link'',
                      ''Check that the URL format matches the platform'' @ [CHR 0x27]
                        @ ''s sharing format'']\<rparr>))))"

definition detectPlatform :: "env \<Rightarrow> string \<Rightarrow> platform option" where
  "detectPlatform ev url = resPlatform (validateChatURL ev url)"

section \<open>CSVGenerator of services/exportGenerators.ts\<close>

record exportOptions =
  includeMetadata :: "bool option"
  includeTimestamps :: "bool option"

definition roleString :: "messageRole \<Rightarrow> string" where
  "roleString r = (case r of User \<Rightarrow> ''user'' | Assistant \<Rightarrow> ''assistant'' | System \<Rightarrow> ''system'')"

text \<open>\<open>text.replace(/"/g, '""')\<close>.\<close>

definition doubleQuotes :: "string \<Rightarrow> string" where
  "doubleQuotes t = concat (map (\<lambda>c. if c = CHR 0x22 then [CHR 0x22, CHR 0x22] else [c]) t)"

definition escapeCSV :: "string \<Rightarrow> string" where
  "escapeCSV t =
     (if strIncludes t '','' \<or> strIncludes t [CHR 0x22] \<or> strIncludes t [CHR 0x0A]
      then [CHR 0x22] @ doubleQuotes t @ [CHR 0x22]
      else t)"

text \<open>
  \<open>format(date, pattern)\<close> of date-fns renders a valid date and throws a \<open>RangeError\<close> on
  the invalid date; the rendering of a time value is a parameter.
\<close>

datatype exportError = RangeError

definition formatDate :: "(int \<Rightarrow> string \<Rightarrow> string) \<Rightarrow> date \<Rightarrow> string \<Rightarrow> exportError + string" where
  "formatDate fmt d pat = (case d of InvalidDate \<Rightarrow> Inl RangeError | Date t \<Rightarrow> Inr (fmt t pat))"

text \<open>The loop over the messages: the output so far.\<close>

fun csvRows :: "(int \<Rightarrow> string \<Rightarrow> string) \<Rightarrow> bool \<Rightarrow> string \<Rightarrow> date message list \<Rightarrow> exportError + string" where
  "csvRows fmt ts output [] = Inr output"
| "csvRows fmt ts output (m # ms) =
     (let row = [escapeCSV (roleString (msgRole m)), escapeCSV (contentText (msgContent m))] in
      if ts
      then (case formatDate fmt (msgTimestamp m) ''yyyy-MM-dd HH:mm:ss'' of
              Inl err \<Rightarrow> Inl err
            | Inr f \<Rightarrow> csvRows fmt ts (output @ joinWith '','' (row @ [escapeCSV f]) @ [CHR 0x0A]) ms)
      else csvRows fmt ts (output @ joinWith '','' row @ [CHR 0x0A]) ms)"

definition CSVGenerator_generate ::
  "(int \<Rightarrow> string \<Rightarrow> string) \<Rightarrow> date conversation \<Rightarrow> exportOptions \<Rightarrow> exportError + string" where
  "CSVGenerator_generate fmt conversation options =
     (let ts = (case includeTimestamps options of None \<Rightarrow> True | Some b \<Rightarrow> b);
          headers = [''Role'', ''Content''] @ (if ts then [''Timestamp''] else [])
      in csvRows fmt ts (joinWith '','' headers @ [CHR 0x0A]) (convMessages conversation))"

section \<open>JSON.stringify and JSON.parse\<close>

text \<open>
  The values of JavaScript that a conversation is made of: \<open>undefined\<close>, \<open>null\<close>, booleans,
  numbers, strings, \<open>Date\<close> objects, arrays and plain objects. \<open>JNumber i\<close> is the Number
  whose value is the integer \<open>i\<close> (the numbers of a conversation are counts); the integers
  that are Numbers are those of magnitude up to \<open>2^53\<close> and, beyond, the ones with at most
  53 significant bits. An object is the list of its own enumerable properties in the
  order in which they are enumerated; an array has no holes. Outside the model are the
  numbers that are not integers (fractions, \<open>NaN\<close>, the infinities) and negative zero,
  \<open>BigInt\<close>, symbols, functions, objects with a \<open>toJSON\<close> method of their own and objects
  that contain themselves.
\<close>

datatype jsValue =
    JUndefined
  | JNull
  | JBool bool
  | JNumber int
  | JString string
  | JDate date
  | JArray "jsValue list"
  | JObject "(string \<times> jsValue) list"


definition digitChar :: "nat \<Rightarrow> char" where
  "digitChar d = char_of (48 + d)"

function showDigits :: "int \<Rightarrow> string" where
  "showDigits n =
     (if n < 10 then [digitChar (nat n)] else showDigits (n div 10) @ [digitChar (nat (n mod 10))])"
  by pat_completeness auto
termination
  by (relation "measure nat") auto

declare showDigits.simps [simp del]

text \<open>
  The Number value of an integer that is not negative: the nearest number with 53
  significant bits, a tie going to the even significand (the model stops short of the
  overflow to \<open>Infinity\<close> at \<open>2^1024\<close>).
\<close>

function bitLength :: "int \<Rightarrow> nat" where
  "bitLength n = (if n \<le> 0 then 0 else Suc (bitLength (n div 2)))"
  by pat_completeness auto
termination
  by (relation "measure nat") auto

declare bitLength.simps [simp del]

definition numberValue :: "int \<Rightarrow> int" where
  "numberValue n =
     (if n < 2 ^ 53 then n
      else (let e = bitLength n - 53; q = n div 2 ^ e; r = n mod 2 ^ e; half = 2 ^ (e - 1)
            in if r < half \<or> (r = half \<and> even q) then q * 2 ^ e else (q + 1) * 2 ^ e))"

text \<open>
  \<open>Number::toString\<close> on an integer. Below \<open>2^53\<close> the result is the decimal expansion.
  From there on it is the decimal with the fewest significant digits whose Number value
  is the number (the nearest one when several have that many digits): \<open>shortestWith x k\<close>
  looks for it among the decimals with \<open>k\<close> significant digits next to \<open>x\<close>. A result of
  more than 21 digits is written with an exponent.
\<close>

definition shortestWith :: "int \<Rightarrow> nat \<Rightarrow> int option" where
  "shortestWith x k =
     (let p = length (showDigits x) - k;
          s = x div 10 ^ p;
          lo = s * 10 ^ p;
          hi = (s + 1) * 10 ^ p
      in if numberValue lo = x \<and> numberValue hi = x
         then (if x - lo < hi - x \<or> (x - lo = hi - x \<and> even s) then Some lo else Some hi)
         else if numberValue lo = x then Some lo
         else if numberValue hi = x then Some hi
         else None)"

fun firstShortest :: "int \<Rightarrow> nat list \<Rightarrow> int" where
  "firstShortest x [] = x"
| "firstShortest x (k # ks) =
     (case shortestWith x k of Some v \<Rightarrow> v | None \<Rightarrow> firstShortest x ks)"

definition shortestDecimal :: "int \<Rightarrow> int" where
  "shortestDecimal x = firstShortest x [1 ..< Suc (length (showDigits x))]"

definition stripZeros :: "string \<Rightarrow> string" where
  "stripZeros ds = rev (dropWhile (\<lambda>c. c = CHR ''0'') (rev ds))"

definition magnitudeToString :: "int \<Rightarrow> string" where
  "magnitudeToString x =
     (if x < 2 ^ 53 then showDigits x
      else (let ds = showDigits (shortestDecimal x); n = length ds
            in if n \<le> 21 then ds
               else (let s = stripZeros ds
                     in (if length s = 1 then s else hd s # ''.'' @ tl s)
                        @ ''e+'' @ showDigits (int (n - 1)))))"

definition numberToString :: "int \<Rightarrow> string" where
  "numberToString i =
     (if i < 0 then CHR ''-'' # magnitudeToString (- i) else magnitudeToString i)"

text \<open>
  \<open>QuoteJSONString\<close>: the quote and the backslash are escaped, a control character
  becomes its short escape or \<open>\u00XX\<close> in lower-case hex, any other character stands for
  itself.
\<close>

definition hexDigit :: "nat \<Rightarrow> char" where
  "hexDigit d = (if d < 10 then char_of (48 + d) else char_of (87 + d))"

abbreviation backslash :: char where
  "backslash \<equiv> CHR 0x5C"

abbreviation dquote :: char where
  "dquote \<equiv> CHR 0x22"

definition quoteChar :: "char \<Rightarrow> string" where
  "quoteChar c = (let n = (of_char c :: nat) in
     if n = 8 then [backslash, CHR ''b'']
     else if n = 9 then [backslash, CHR ''t'']
     else if n = 10 then [backslash, CHR ''n'']
     else if n = 12 then [backslash, CHR ''f'']
     else if n = 13 then [backslash, CHR ''r'']
     else if n = 34 then [backslash, dquote]
     else if n = 92 then [backslash, backslash]
     else if n < 32 then [backslash, CHR ''u'', CHR ''0'', CHR ''0'', hexDigit (n div 16), hexDigit (n mod 16)]
     else [c])"

definition quoteJSONString :: "string \<Rightarrow> string" where
  "quoteJSONString s = dquote # concat (map quoteChar s) @ [dquote]"

text \<open>
  \<open>JSON.stringify(value, null, 2)\<close>: \<open>SerializeJSONProperty\<close> with a gap of two spaces.
  \<open>ind\<close> is the current indentation. A \<open>Date\<close> is replaced by its \<open>toJSON()\<close>, the ISO string
  (null for the invalid date); \<open>undefined\<close> has no rendering (None): it is left out of an
  object and written \<open>null\<close> in an array.
\<close>

definition spaces :: "nat \<Rightarrow> string" where
  "spaces n = replicate n (CHR '' '')"

definition newline :: string where
  "newline = [CHR 0x0A]"

definition wrapIndented :: "char \<Rightarrow> char \<Rightarrow> nat \<Rightarrow> string list \<Rightarrow> string" where
  "wrapIndented opening closing ind partial =
     (if partial = [] then [opening, closing]
      else [opening] @ newline @ spaces (ind + 2)
           @ joinWith ('','' @ newline @ spaces (ind + 2)) partial
           @ newline @ spaces ind @ [closing])"

fun serializeJSONProperty :: "(int \<Rightarrow> string) \<Rightarrow> nat \<Rightarrow> jsValue \<Rightarrow> string option"
  and serializeElements :: "(int \<Rightarrow> string) \<Rightarrow> nat \<Rightarrow> jsValue list \<Rightarrow> string list"
  and serializeMembers :: "(int \<Rightarrow> string) \<Rightarrow> nat \<Rightarrow> (string \<times> jsValue) list \<Rightarrow> string list"
where
  "serializeJSONProperty toIso ind JUndefined = None"
| "serializeJSONProperty toIso ind JNull = Some ''null''"
| "serializeJSONProperty toIso ind (JBool b) = Some (if b then ''true'' else ''false'')"
| "serializeJSONProperty toIso ind (JNumber i) = Some (numberToString i)"
| "serializeJSONProperty toIso ind (JString s) = Some (quoteJSONString s)"
| "serializeJSONProperty toIso ind (JDate d) =
     (case d of Date t \<Rightarrow> Some (quoteJSONString (toIso t)) | InvalidDate \<Rightarrow> Some ''null'')"
| "serializeJSONProperty toIso ind (JArray vs) =
     Some (wrapIndented (CHR ''['') (CHR '']'') ind (serializeElements toIso (ind + 2) vs))"
| "serializeJSONProperty toIso ind (JObject ps) =
     Some (wrapIndented (CHR ''{'') (CHR ''}'') ind (serializeMembers toIso (ind + 2) ps))"
| "serializeElements toIso ind [] = []"
| "serializeElements toIso ind (v # vs) =
     (case serializeJSONProperty toIso ind v of None \<Rightarrow> ''null'' | Some s \<Rightarrow> s)
       # serializeElements toIso ind vs"
| "serializeMembers toIso ind [] = []"
| "serializeMembers toIso ind ((k, v) # ps) =
     (case serializeJSONProperty toIso ind v of
        None \<Rightarrow> serializeMembers toIso ind ps
      | Some s \<Rightarrow> (quoteJSONString k @ '': '' @ s) # serializeMembers toIso ind ps)"
















section \<open>JSONGenerator of services/exportGenerators.ts\<close>














section \<open>Notions used in the statements\<close>

text \<open>What the claims say about a message: its role and its content.\<close>

definition roleContent :: "'d message \<Rightarrow> messageRole \<times> messageContent" where
  "roleContent m = (msgRole m, msgContent m)"

text \<open>The test \<open>content.text.trim()\<close> that guards \<open>messages.push\<close> in both parsers.\<close>

definition keepsText :: "messageContent \<Rightarrow> bool" where
  "keepsText c = (trim (contentText c) \<noteq> [])"

text \<open>A string with a character that is not white space.\<close>

definition nonblank :: "string \<Rightarrow> bool" where
  "nonblank s = (\<exists>c \<in> set s. \<not> isSpace c)"

text \<open>Reading a quoted CSV field back: a doubled quote stands for one quote.\<close>

fun undouble :: "string \<Rightarrow> string" where
  "undouble (a # b # cs) =
     (if a = CHR 0x22 \<and> b = CHR 0x22 then CHR 0x22 # undouble cs else a # undouble (b # cs))"
| "undouble cs = cs"

text \<open>The line of one message in the CSV output (for a message whose date is valid).\<close>

definition csvLine :: "(int \<Rightarrow> string \<Rightarrow> string) \<Rightarrow> bool \<Rightarrow> date message \<Rightarrow> string" where
  "csvLine fmt ts m =
     roleString (msgRole m) @ '','' @ escapeCSV (contentText (msgContent m)) @
     (if ts then '','' @ escapeCSV (case msgTimestamp m of
                                      Date t \<Rightarrow> fmt t ''yyyy-MM-dd HH:mm:ss''
                                    | InvalidDate \<Rightarrow> [])
      else []) @ [CHR 0x0A]"

text \<open>The artifact that each parser builds from one \<open>code\<close> element.\<close>

definition codeArtifactOf :: "elem \<Rightarrow> artifact" where
  "codeArtifactOf c = \<lparr>artType = Code, artContent = trim (textOf (snd c)),
     artLanguage = codeLanguage (snd c) (trim (textOf (snd c)))\<rparr>"

definition ChatGPTParser_codeArtifactOf :: "elem \<Rightarrow> artifact" where
  "ChatGPTParser_codeArtifactOf c = \<lparr>artType = Code, artContent = trim (textOf (snd c)),
     artLanguage = detectCodeLanguage c\<rparr>"

text \<open>The artifacts of a message content, the empty list when the field is undefined.\<close>

definition artifactsOf :: "messageContent \<Rightarrow> artifact list" where
  "artifactsOf c = (case contentArtifacts c of None \<Rightarrow> [] | Some arts \<Rightarrow> arts)"

subsection \<open>JSON\<close>




text \<open>The text of an array element.\<close>

definition elementText :: "(int \<Rightarrow> string) \<Rightarrow> nat \<Rightarrow> jsValue \<Rightarrow> string" where
  "elementText toIso ind v =
     (case serializeJSONProperty toIso ind v of None \<Rightarrow> ''null'' | Some s \<Rightarrow> s)"











subsection \<open>Sample inputs\<close>

definition helloText :: string where
  "helloText = ''Hello! Can you help me understand how React hooks work?''"

definition counterCode :: string where
  "counterCode = ''import React, { useState } from '' @ [CHR 0x27] @ ''react'' @ [CHR 0x27] @ '';''
     @ [CHR 0x0A, CHR 0x0A] @ ''function Counter() {'' @ [CHR 0x0A]
     @ ''  const [count, setCount] = useState(0);'' @ [CHR 0x0A]
     @ ''  return count;'' @ [CHR 0x0A] @ ''}''"

text \<open>
  A page with one user turn and one assistant turn that holds a fenced code block: the
  markup, and the tree that \<open>cheerio.load\<close> builds from it (an \<open>html\<close> element with a
  \<open>head\<close> and a \<open>body\<close>, as for every page).
\<close>

definition twoTurnMarkup :: string where
  "twoTurnMarkup = ''<title>ChatGPT - React hooks</title>''
     @ ''<div data-message-author-role=user>'' @ helloText @ ''</div>''
     @ ''<div data-message-author-role=assistant><p>Of course! Here is a simple example:</p>''
     @ ''<pre><code>'' @ counterCode @ ''</code></pre></div>''"

definition twoTurnPage :: document where
  "twoTurnPage =
     [Element ''html'' []
        [Element ''head'' [] [Element ''title'' [] [TextNode ''ChatGPT - React hooks'']],
         Element ''body'' []
           [Element ''div'' [(''data-message-author-role'', ''user'')] [TextNode helloText],
            Element ''div'' [(''data-message-author-role'', ''assistant'')]
              [Element ''p'' [] [TextNode ''Of course! Here is a simple example:''],
               Element ''pre'' [] [Element ''code'' [] [TextNode counterCode]]]]]]"

text \<open>
  The same two turns with a code block that is marked by its class and holds neither
  \<open>import\<close> nor \<open>from\<close>.
\<close>

definition hintedMarkup :: string where
  "hintedMarkup = ''<div data-message-author-role=user>'' @ helloText @ ''</div>''
     @ ''<div data-message-author-role=assistant><pre><code class=''
     @ [CHR 0x22] @ ''language-javascript hljs'' @ [CHR 0x22]
     @ ''>const answer = 6 * 7;</code></pre></div>''"

definition hintedPage :: document where
  "hintedPage =
     [Element ''html'' []
        [Element ''head'' [] [],
         Element ''body'' []
           [Element ''div'' [(''data-message-author-role'', ''user'')] [TextNode helloText],
            Element ''div'' [(''data-message-author-role'', ''assistant'')]
              [Element ''pre'' []
                 [Element ''code'' [(''class'', ''language-javascript hljs'')]
                    [TextNode ''const answer = 6 * 7;'']]]]]]"

text \<open>A page whose only message container holds white space.\<close>

definition blankMarkup :: string where
  "blankMarkup = ''<div data-message-author-role=user>   </div>''"

definition blankPage :: document where
  "blankPage =
     [Element ''html'' []
        [Element ''head'' [] [],
         Element ''body'' []
           [Element ''div'' [(''data-message-author-role'', ''user'')] [TextNode ''   '']]]]"

text \<open>
  A page with two message containers whose role attribute names none of the three roles:
  the first holds a text of seven characters, the second a text of sixty; neither has a
  class or holds code.
\<close>

definition toolMarkup :: string where
  "toolMarkup = ''<div data-message-author-role=tool>Thanks!</div>''
     @ ''<div data-message-author-role=tool>'' @ replicate 60 (CHR ''a'') @ ''</div>''"

definition toolPage :: document where
  "toolPage =
     [Element ''html'' []
        [Element ''head'' [] [],
         Element ''body'' []
           [Element ''div'' [(''data-message-author-role'', ''tool'')] [TextNode ''Thanks!''],
            Element ''div'' [(''data-message-author-role'', ''tool'')]
              [TextNode (replicate 60 (CHR ''a''))]]]]"

text \<open>
  A page with two assistant containers. The first holds a fenced code block of one letter
  and a longer one; in the second the content element (class \<open>markdown\<close>) is itself the
  \<open>pre\<close> of a fenced code block of three letters.
\<close>

definition blocksPage :: document where
  "blocksPage =
     [Element ''html'' []
        [Element ''head'' [] [],
         Element ''body'' []
           [Element ''div'' [(''data-message-author-role'', ''assistant'')]
              [Element ''pre'' [] [Element ''code'' [] [TextNode ''x'']],
               Element ''pre'' [] [Element ''code'' [(''class'', ''language-python'')]
                 [TextNode ''print(1 + 2 + 3)'']]],
            Element ''div'' [(''data-message-author-role'', ''assistant'')]
              [Element ''pre'' [(''class'', ''markdown language-x'')]
                 [Element ''code'' [] [TextNode ''abc'']]]]]]"

text \<open>The page of the empty markup.\<close>

definition emptyPage :: document where
  "emptyPage = [Element ''html'' [] [Element ''head'' [] [], Element ''body'' [] []]]"

text \<open>
  An environment for the examples: \<open>cheerio.load\<close> on the markups above, a clock that
  stands at the epoch, and \<open>new URL\<close> accepting what starts with \<open>https://\<close>.
\<close>

definition sampleEnv :: env where
  "sampleEnv = \<lparr>uuidv4 = (\<lambda>n. ''uuid''), dateNow = (\<lambda>n. 0),
     toISOString = (\<lambda>t. ''1970-01-01T00:00:00.000Z''), dateParse = (\<lambda>s. None),
     load = (\<lambda>s. if s = twoTurnMarkup then twoTurnPage
                  else if s = hintedMarkup then hintedPage
                  else if s = blankMarkup then blankPage
                  else if s = toolMarkup then toolPage
                  else emptyPage),
     urlParses = (\<lambda>s. prefix ''https://'' s)\<rparr>"

definition world0 :: world where
  "world0 = \<lparr>uuidCalls = 0, dateCalls = 0\<rparr>"

definition quotedMessage :: "date message" where
  "quotedMessage = \<lparr>msgId = ''m1'', msgRole = User,
     msgContent = \<lparr>contentText = ''Hi, '' @ [CHR 0x22] @ ''you'' @ [CHR 0x22],
       contentArtifacts = None,
       contentFormatting = \<lparr>isMarkdown = False, hasCodeBlocks = False, hasLinks = False,
         hasImages = False\<rparr>\<rparr>,
     msgTimestamp = Date 0, msgMetadataTimestamp = Date 0\<rparr>"

definition quotedConversation :: "date conversation" where
  "quotedConversation = \<lparr>convId = ''c1'', convTitle = ''Quotes'', convPlatform = Chatgpt,
     convCreatedAt = Date 0, convUpdatedAt = Date 0, convMessages = [quotedMessage],
     convMetadata = \<lparr>metaPlatform = Chatgpt, metaExtractedAt = Date 0, metaMessageCount = 1,
       metaTitle = ''Quotes'', metaUrl = None\<rparr>\<rparr>"

section \<open>Lemmas about the string functions\<close>

lemma trim_Nil: "trim [] = []"
  by (simp add: trim_def)

lemma strIncludes_char: "strIncludes t [c] = (c \<in> set t)"
  by (induction t) auto

lemma dropWhile_nonempty: "(dropWhile P xs \<noteq> []) = (\<exists>x \<in> set xs. \<not> P x)"
  by (induction xs) auto

lemma set_dropWhile_not: "(\<exists>x \<in> set (dropWhile P xs). \<not> P x) = (\<exists>x \<in> set xs. \<not> P x)"
  by (induction xs) auto

lemma trim_nonempty: "(trim s \<noteq> []) = nonblank s"
  by (simp add: trim_def nonblank_def dropWhile_nonempty set_dropWhile_not)

lemma nonblank_trim: "nonblank (trim s) = nonblank s"
  by (simp add: trim_def nonblank_def set_dropWhile_not)

lemma isSpace_space: "isSpace (CHR '' '')"
  by (simp add: isSpace_def)

lemma isSpace_LF: "isSpace (CHR 0x0A)"
  by (simp add: isSpace_def)

lemma nonblank_collapseSpaces: "nonblank (collapseSpaces s) = nonblank s"
proof (induction s rule: collapseSpaces.induct)
  case 1
  show ?case by simp
next
  case (2 c cs)
  show ?case
  proof (cases "isSpace c")
    case True
    with 2 have "nonblank (collapseSpaces (c # cs)) = nonblank (dropWhile isSpace cs)"
      by (simp add: nonblank_def isSpace_space)
    also have "\<dots> = nonblank (c # cs)"
      using True by (simp add: nonblank_def set_dropWhile_not)
    finally show ?thesis .
  next
    case False
    with 2 show ?thesis by (simp add: nonblank_def)
  qed
qed

lemma drop_within_takeWhile:
  assumes "k \<le> length (takeWhile P xs)"
  shows "(\<exists>x \<in> set (drop k xs). \<not> P x) = (\<exists>x \<in> set xs. \<not> P x)"
proof -
  have "take k xs = take k (takeWhile P xs)"
    using assms by (metis takeWhile_dropWhile_id take_append diff_is_0_eq take_0 append_Nil2)
  then have "\<forall>x \<in> set (take k xs). P x"
    by (metis in_set_takeD set_takeWhileD)
  moreover have "set xs = set (take k xs) \<union> set (drop k xs)"
    by (metis append_take_drop_id set_append)
  ultimately show ?thesis by auto
qed

lemma lastLF_le: "lastLF run \<le> length run"
  by (simp add: lastLF_def)

lemma nonblank_collapseBlankLines: "nonblank (collapseBlankLines s) = nonblank s"
proof (induction s rule: collapseBlankLines.induct)
  case 1
  show ?case by simp
next
  case (2 c cs)
  show ?case
  proof (cases "c = CHR 0x0A \<and> CHR 0x0A \<in> set (takeWhile isSpace cs)")
    case True
    with 2 have "nonblank (collapseBlankLines (c # cs))
        = nonblank (drop (lastLF (takeWhile isSpace cs)) cs)"
      by (simp add: nonblank_def isSpace_LF)
    also have "\<dots> = nonblank cs"
      unfolding nonblank_def by (rule drop_within_takeWhile) (rule lastLF_le)
    also have "\<dots> = nonblank (c # cs)"
      using True by (simp add: nonblank_def isSpace_LF)
    finally show ?thesis .
  next
    case False
    with 2 show ?thesis by (auto simp: nonblank_def)
  qed
qed

section \<open>Lemmas about the two parsers\<close>

lemma keepsText_extractMessageContent:
  "keepsText (extractMessageContent e) = nonblank (textOf (snd e))"
  by (simp add: keepsText_def extractMessageContent_def Let_def trim_nonempty nonblank_trim
      nonblank_collapseBlankLines nonblank_collapseSpaces)


lemma keepsText_nonempty: "keepsText c \<Longrightarrow> contentText c \<noteq> []"
  by (auto simp: keepsText_def trim_Nil)

lemma extractTitleFrom_nonempty: "extractTitleFrom doc sels \<noteq> []"
  by (induction sels) (auto simp: Let_def split: list.splits)

lemma eachMessage_fst:
  "map roleContent (fst (eachMessage ev (acc, w) es)) =
     map roleContent acc @
     filter (\<lambda>p. keepsText (snd p)) (map (\<lambda>e. (extractMessageRole e, extractMessageContent e)) es)"
proof (induction es arbitrary: acc w)
  case Nil
  show ?case by simp
next
  case (Cons e es)
  show ?case
    by (simp add: Let_def split_beta Cons.IH) (simp add: roleContent_def keepsText_def)
qed

lemma ChatGPTParser_eachMessage_fst:
  "map roleContent (fst (ChatGPTParser_eachMessage ev (acc, w) es)) =
     map roleContent acc @
     filter (\<lambda>p. keepsText (snd p))
       (map (\<lambda>e. (ChatGPTParser_extractMessageRole e, ChatGPTParser_extractMessageContent e)) es)"
proof (induction es arbitrary: acc w)
  case Nil
  show ?case by simp
next
  case (Cons e es)
  show ?case
    by (simp add: Let_def split_beta Cons.IH) (simp add: roleContent_def keepsText_def)
qed

lemma extractMessages_fst:
  "map roleContent (fst (extractMessages ev w doc)) =
     filter (\<lambda>p. keepsText (snd p))
       (map (\<lambda>e. (extractMessageRole e, extractMessageContent e))
          (firstSelection doc messageSelectors))"
  by (simp add: extractMessages_def eachMessage_fst)

lemma ChatGPTParser_extractMessages_fst:
  "map roleContent (fst (ChatGPTParser_extractMessages ev w doc sel)) =
     filter (\<lambda>p. keepsText (snd p))
       (map (\<lambda>e. (ChatGPTParser_extractMessageRole e, ChatGPTParser_extractMessageContent e))
          (selectAll doc sel))"
  by (simp add: ChatGPTParser_extractMessages_def ChatGPTParser_eachMessage_fst)

lemma kept_messages_have_text:
  assumes "map roleContent ms = filter (\<lambda>p. keepsText (snd p)) ps" and "m \<in> set ms"
  shows "keepsText (msgContent m)"
proof -
  from assms(2) have "roleContent m \<in> set (map roleContent ms)" by simp
  with assms(1) have "keepsText (snd (roleContent m))" by simp
  then show ?thesis by (simp add: roleContent_def)
qed

lemma no_kept_messages:
  assumes "map roleContent ms = filter (\<lambda>p. keepsText (snd p)) (map f es)"
    and "\<forall>e \<in> set es. \<not> keepsText (snd (f e))"
  shows "ms = []"
proof -
  from assms(2) have "filter (\<lambda>p. keepsText (snd p)) (map f es) = []"
    by (simp add: filter_empty_conv)
  with assms(1) show ?thesis by simp
qed

lemma parseConversationFromHtml_Inr:
  assumes "parseConversationFromHtml ev w htmlText url = Inr c"
  shows "convMessages c = fst (extractMessages ev w (load ev htmlText))"
    and "convMessages c \<noteq> []"
    and "convTitle c = extractTitle (load ev htmlText)"
    and "convPlatform c = Chatgpt"
    and "metaPlatform (convMetadata c) = Chatgpt"
    and "metaMessageCount (convMetadata c) = length (convMessages c)"
    and "metaTitle (convMetadata c) = convTitle c"
    and "metaUrl (convMetadata c) = Some url"
  using assms
  by (auto simp: parseConversationFromHtml_def Let_def split_beta split: if_splits)

lemma ChatGPTParser_parseFromHtml_Inr:
  assumes "ChatGPTParser_parseFromHtml ev w htmlText ourl = Inr c"
  shows "convMessages c = fst (ChatGPTParser_extractMessages ev w (load ev htmlText)
                                 PARSING_SELECTORS_chatgpt_messages)"
    and "convMessages c \<noteq> []"
    and "convTitle c = ChatGPTParser_extractTitle (load ev htmlText)"
    and "convPlatform c = Chatgpt"
    and "metaPlatform (convMetadata c) = Chatgpt"
    and "metaMessageCount (convMetadata c) = length (convMessages c)"
    and "metaTitle (convMetadata c) = convTitle c"
    and "metaUrl (convMetadata c) = ourl"
  using assms
  by (auto simp: ChatGPTParser_parseFromHtml_def Let_def split_beta split: if_splits)

lemma parseConversationFromHtml_Inl:
  "fst (extractMessages ev w (load ev htmlText)) = [] \<Longrightarrow>
   parseConversationFromHtml ev w htmlText url = Inl NoMessagesFound"
  by (simp add: parseConversationFromHtml_def Let_def split_beta)

lemma ChatGPTParser_parseFromHtml_Inl:
  "fst (ChatGPTParser_extractMessages ev w (load ev htmlText) PARSING_SELECTORS_chatgpt_messages) = []
   \<Longrightarrow> \<exists>err. ChatGPTParser_parseFromHtml ev w htmlText ourl = Inl err"
  by (simp add: ChatGPTParser_parseFromHtml_def Let_def split_beta)




lemma codeArtifacts_filter:
  "codeArtifacts acc cs =
     acc @ map codeArtifactOf (filter (\<lambda>c. 10 < length (trim (textOf (snd c)))) cs)"
proof (induction cs arbitrary: acc)
  case Nil
  show ?case by simp
next
  case (Cons c cs)
  have "(trim (textOf (snd c)) \<noteq> [] \<and> 10 < length (trim (textOf (snd c))))
      = (10 < length (trim (textOf (snd c))))"
    by auto
  then show ?case by (simp add: Let_def Cons.IH codeArtifactOf_def)
qed

lemma ChatGPTParser_codeArtifacts_filter:
  "ChatGPTParser_codeArtifacts acc cs =
     acc @ map ChatGPTParser_codeArtifactOf (filter (\<lambda>c. 0 < length (trim (textOf (snd c)))) cs)"
  by (induction cs arbitrary: acc) (simp_all add: Let_def ChatGPTParser_codeArtifactOf_def)

lemma findSel_weaken:
  assumes "\<And>anc n. matchesSel s anc n \<Longrightarrow> matchesSel s' anc n" and "findSel e s \<noteq> []"
  shows "findSel e s' \<noteq> []"
proof -
  from assms(2) obtain x where x: "x \<in> set (concat (map (elementsOf []) (childrenOf (snd e))))"
      and m: "matchesSel s (fst x @ [snd e]) (snd x)"
    by (fastforce simp: findSel_def filter_empty_conv)
  from assms(1)[OF m] x show ?thesis
    by (fastforce simp: findSel_def filter_empty_conv)
qed


lemma textOf_elementsOf:
  "x \<in> set (elementsOf anc n) \<Longrightarrow> set (textOf (snd x)) \<subseteq> set (textOf n)"
proof (induction n arbitrary: anc x)
  case (TextNode s)
  then show ?case by simp
next
  case (CommentNode s)
  then show ?case by simp
next
  case (Element t as cs)
  show ?case
  proof (cases "x = (anc, Element t as cs)")
    case True
    then show ?thesis by simp
  next
    case False
    with Element.prems obtain c where c: "c \<in> set cs"
        and x: "x \<in> set (elementsOf (Element t as cs # anc) c)"
      by auto
    from Element.IH[OF c x] c show ?thesis by auto
  qed
qed

lemma textOf_findSel:
  assumes "d \<in> set (findSel e sel)"
  shows "set (textOf (snd d)) \<subseteq> set (textOf (snd e))"
proof -
  from assms obtain chain c where c: "c \<in> set (childrenOf (snd e))"
      and x: "(chain, snd d) \<in> set (elementsOf [] c)"
    by (auto simp: findSel_def)
  from textOf_elementsOf[OF x] have "set (textOf (snd d)) \<subseteq> set (textOf c)" by simp
  moreover from c have "set (textOf c) \<subseteq> set (textOf (snd e))"
    by (cases "snd e") auto
  ultimately show ?thesis by blast
qed

lemma nonblank_findSel:
  "d \<in> set (findSel e sel) \<Longrightarrow> nonblank (textOf (snd d)) \<Longrightarrow> nonblank (textOf (snd e))"
  using textOf_findSel[of d e sel] by (auto simp: nonblank_def)

section \<open>Lemmas about the language of a code block\<close>

lemma matchHint_absent: "\<not> strIncludes s hint \<Longrightarrow> matchHint hint s = None"
  by (induction s) auto

lemma matchHint_prefix:
  assumes "s = hint @ w @ rest" and "hint \<noteq> []" and "w \<noteq> []" and "list_all isWord w"
    and "rest = [] \<or> \<not> isWord (hd rest)"
  shows "matchHint hint s = Some w"
proof -
  from assms(1,2) have "s \<noteq> []" by simp
  then obtain c cs where s: "s = c # cs" by (cases s) auto
  have p: "prefix hint (c # cs)" using assms(1) s by auto
  have d: "drop (length hint) (c # cs) = w @ rest" using assms(1) s by auto
  have "takeWhile isWord rest = []" using assms(5) by (cases rest) auto
  with assms(4) have t: "takeWhile isWord (w @ rest) = w"
    by (simp add: takeWhile_append2 list_all_iff)
  from p d t assms(3) show ?thesis unfolding s by simp
qed

lemma codeLanguage_javascript:
  assumes "(case attr code ''class'' of None \<Rightarrow> [] | Some v \<Rightarrow> v) = cls"
    and "(cls = ''language-javascript'' @ rest \<and> (rest = [] \<or> \<not> isWord (hd rest))) \<or>
         (\<not> strIncludes cls ''language-'' \<and> \<not> strIncludes cls ''lang-'' \<and>
          strIncludes content ''import '' \<and> strIncludes content ''from '')"
  shows "codeLanguage code content = Some ''javascript''"
  using assms(2)
proof
  assume h: "cls = ''language-javascript'' @ rest \<and> (rest = [] \<or> \<not> isWord (hd rest))"
  have w: "list_all isWord ''javascript''" by (simp add: isWord_def)
  from h have "cls = ''language-'' @ ''javascript'' @ rest" by simp
  from matchHint_prefix[OF this _ _ w] h have "matchHint ''language-'' cls = Some ''javascript''"
    by simp
  then show ?thesis by (simp add: codeLanguage_def assms(1))
next
  assume h: "\<not> strIncludes cls ''language-'' \<and> \<not> strIncludes cls ''lang-'' \<and>
          strIncludes content ''import '' \<and> strIncludes content ''from ''"
  then have "matchHint ''language-'' cls = None" "matchHint ''lang-'' cls = None"
    by (simp_all add: matchHint_absent)
  with h show ?thesis
    by (simp add: codeLanguage_def assms(1) detectLanguageFromContent_def)
qed

section \<open>Lemmas about the two-turn scenario\<close>

lemma helloText_clean: "trim (collapseBlankLines (collapseSpaces (trim helloText))) = helloText"
  by code_simp

lemma nonblank_helloText: "nonblank helloText"
  unfolding trim_nonempty[symmetric] by code_simp

lemma firstSelection_role:
  "selectAll doc (HasAttr ''data-message-author-role'') \<noteq> [] \<Longrightarrow>
   firstSelection doc messageSelectors = selectAll doc (HasAttr ''data-message-author-role'')"
  by (simp add: messageSelectors_def)

lemma two_messages:
  assumes "map roleContent ms = [(r1, c1), (r2, c2)]"
  shows "length ms = 2 \<and> msgRole (ms ! 0) = r1 \<and> msgContent (ms ! 0) = c1
       \<and> msgRole (ms ! 1) = r2 \<and> msgContent (ms ! 1) = c2"
proof -
  from assms obtain a b where "ms = [a, b]" by (auto simp: map_eq_Cons_conv)
  with assms show ?thesis by (simp add: roleContent_def)
qed

section \<open>Lemmas about the validator\<close>

lemma matchPlatforms_None:
  "(matchPlatforms ps u = None) = list_all (\<lambda>(pf, config). matchPattern (pfPattern config) u = None) ps"
  by (induction ps u rule: matchPlatforms.induct) (auto split: option.splits)




section \<open>Lemmas about the CSV generator\<close>

lemma undouble_doubleQuotes: "undouble (doubleQuotes t) = t"
proof (induction t)
  case Nil
  show ?case by (simp add: doubleQuotes_def)
next
  case (Cons c t)
  have step: "doubleQuotes (c # t) =
      (if c = CHR 0x22 then [CHR 0x22, CHR 0x22] else [c]) @ doubleQuotes t"
    by (simp add: doubleQuotes_def)
  show ?case
  proof (cases "c = CHR 0x22")
    case True
    with Cons step show ?thesis by simp
  next
    case False
    with Cons step show ?thesis by (cases "doubleQuotes t") auto
  qed
qed

lemma escapeCSV_roleString: "escapeCSV (roleString r) = roleString r"
  by (cases r) (simp_all add: escapeCSV_def roleString_def)

lemma csvRows_lines:
  "csvRows fmt ts out ms = Inr r \<Longrightarrow> r = out @ concat (map (csvLine fmt ts) ms)"
proof (induction ms arbitrary: out)
  case Nil
  then show ?case by simp
next
  case (Cons m ms)
  show ?case
  proof (cases ts)
    case False
    with Cons.prems have "csvRows fmt ts (out @ csvLine fmt ts m) ms = Inr r"
      by (simp add: Let_def csvLine_def escapeCSV_roleString)
    from Cons.IH[OF this] show ?thesis by simp
  next
    case True
    show ?thesis
    proof (cases "msgTimestamp m")
      case InvalidDate
      with True Cons.prems show ?thesis by (simp add: Let_def formatDate_def)
    next
      case (Date t)
      with True Cons.prems have "csvRows fmt ts (out @ csvLine fmt ts m) ms = Inr r"
        by (simp add: Let_def csvLine_def escapeCSV_roleString formatDate_def)
      from Cons.IH[OF this] show ?thesis by simp
    qed
  qed
qed

lemma csvRows_returns:
  "\<not> ts \<or> (\<forall>m \<in> set ms. msgTimestamp m \<noteq> InvalidDate) \<Longrightarrow> \<exists>r. csvRows fmt ts out ms = Inr r"
proof (induction ms arbitrary: out)
  case Nil
  show ?case by simp
next
  case (Cons m ms)
  show ?case
  proof (cases ts)
    case False
    with Cons.IH show ?thesis by (simp add: Let_def)
  next
    case True
    with Cons.prems obtain t where "msgTimestamp m = Date t"
      by (cases "msgTimestamp m") auto
    with True Cons.prems Cons.IH show ?thesis by (simp add: Let_def formatDate_def)
  qed
qed

section \<open>Lemmas about JSON.stringify and JSON.parse\<close>






















































































section \<open>What a returned conversation satisfies\<close>

text \<open>
  C1. A conversation returned by \<open>parseConversationFromHtml\<close> or by
  \<open>ChatGPTParser.parseFromHtml\<close> has at least one message and a non-empty title, and every
  message has a non-empty text (non-empty even after trimming) and one of the three roles.
  When no message container of the page has a text that is non-empty after cleaning, the
  parser fails instead of returning a conversation.
\<close>

theorem returned_conversation_valid:
  "(parseConversationFromHtml ev w htmlText url = Inr c \<longrightarrow>
      length (convMessages c) > 0 \<and> convTitle c \<noteq> [] \<and>
      (\<forall>m \<in> set (convMessages c).
         contentText (msgContent m) \<noteq> [] \<and> trim (contentText (msgContent m)) \<noteq> [] \<and>
         msgRole m \<in> {User, Assistant, System})) \<and>
   ((\<forall>e \<in> set (firstSelection (load ev htmlText) messageSelectors).
        trim (contentText (extractMessageContent e)) = []) \<longrightarrow>
      parseConversationFromHtml ev w htmlText url = Inl NoMessagesFound) \<and>
   (ChatGPTParser_parseFromHtml ev w htmlText ourl = Inr d \<longrightarrow>
      length (convMessages d) > 0 \<and> convTitle d \<noteq> [] \<and>
      (\<forall>m \<in> set (convMessages d).
         contentText (msgContent m) \<noteq> [] \<and> trim (contentText (msgContent m)) \<noteq> [] \<and>
         msgRole m \<in> {User, Assistant, System})) \<and>
   ((\<forall>e \<in> set (selectAll (load ev htmlText) PARSING_SELECTORS_chatgpt_messages).
        trim (contentText (ChatGPTParser_extractMessageContent e)) = []) \<longrightarrow>
      (\<exists>err. ChatGPTParser_parseFromHtml ev w htmlText ourl = Inl err))"
proof (intro conjI impI)
  assume p: "parseConversationFromHtml ev w htmlText url = Inr c"
  from parseConversationFromHtml_Inr(2)[OF p] show "length (convMessages c) > 0" by simp
  from parseConversationFromHtml_Inr(3)[OF p] show "convTitle c \<noteq> []"
    by (simp add: extractTitle_def extractTitleFrom_nonempty)
  show "\<forall>m \<in> set (convMessages c).
         contentText (msgContent m) \<noteq> [] \<and> trim (contentText (msgContent m)) \<noteq> [] \<and>
         msgRole m \<in> {User, Assistant, System}"
  proof
    fix m assume m: "m \<in> set (convMessages c)"
    have "keepsText (msgContent m)"
      using kept_messages_have_text[OF extractMessages_fst] m
        parseConversationFromHtml_Inr(1)[OF p] by metis
    moreover have "msgRole m \<in> {User, Assistant, System}" by (cases "msgRole m") auto
    ultimately show "contentText (msgContent m) \<noteq> [] \<and> trim (contentText (msgContent m)) \<noteq> [] \<and>
         msgRole m \<in> {User, Assistant, System}"
      using keepsText_nonempty by (auto simp: keepsText_def)
  qed
next
  assume blank: "\<forall>e \<in> set (firstSelection (load ev htmlText) messageSelectors).
        trim (contentText (extractMessageContent e)) = []"
  have "fst (extractMessages ev w (load ev htmlText)) = []"
    by (rule no_kept_messages[OF extractMessages_fst]) (use blank in \<open>simp add: keepsText_def\<close>)
  then show "parseConversationFromHtml ev w htmlText url = Inl NoMessagesFound"
    by (rule parseConversationFromHtml_Inl)
next
  assume p: "ChatGPTParser_parseFromHtml ev w htmlText ourl = Inr d"
  from ChatGPTParser_parseFromHtml_Inr(2)[OF p] show "length (convMessages d) > 0" by simp
  from ChatGPTParser_parseFromHtml_Inr(3)[OF p] show "convTitle d \<noteq> []"
    by (simp add: ChatGPTParser_extractTitle_def extractTitleFrom_nonempty)
  show "\<forall>m \<in> set (convMessages d).
         contentText (msgContent m) \<noteq> [] \<and> trim (contentText (msgContent m)) \<noteq> [] \<and>
         msgRole m \<in> {User, Assistant, System}"
  proof
    fix m assume m: "m \<in> set (convMessages d)"
    have "keepsText (msgContent m)"
      using kept_messages_have_text[OF ChatGPTParser_extractMessages_fst] m
        ChatGPTParser_parseFromHtml_Inr(1)[OF p] by metis
    moreover have "msgRole m \<in> {User, Assistant, System}" by (cases "msgRole m") auto
    ultimately show "contentText (msgContent m) \<noteq> [] \<and> trim (contentText (msgContent m)) \<noteq> [] \<and>
         msgRole m \<in> {User, Assistant, System}"
      using keepsText_nonempty by (auto simp: keepsText_def)
  qed
next
  assume blank: "\<forall>e \<in> set (selectAll (load ev htmlText) PARSING_SELECTORS_chatgpt_messages).
        trim (contentText (ChatGPTParser_extractMessageContent e)) = []"
  have "fst (ChatGPTParser_extractMessages ev w (load ev htmlText)
               PARSING_SELECTORS_chatgpt_messages) = []"
    by (rule no_kept_messages[OF ChatGPTParser_extractMessages_fst])
       (use blank in \<open>simp add: keepsText_def\<close>)
  then show "\<exists>err. ChatGPTParser_parseFromHtml ev w htmlText ourl = Inl err"
    by (rule ChatGPTParser_parseFromHtml_Inl)
qed

theorem returned_conversation_valid_witness:
  "(case parseConversationFromHtml sampleEnv world0 twoTurnMarkup ''https://chatgpt.com/share/abc'' of
      Inl err \<Rightarrow> False
    | Inr c \<Rightarrow> length (convMessages c) > 0 \<and> convTitle c \<noteq> [] \<and>
        list_all (\<lambda>m. contentText (msgContent m) \<noteq> []) (convMessages c)) \<and>
   parseConversationFromHtml sampleEnv world0 blankMarkup ''https://chatgpt.com/share/abc''
     = Inl NoMessagesFound \<and>
   (case ChatGPTParser_parseFromHtml sampleEnv world0 twoTurnMarkup None of
      Inl err \<Rightarrow> False
    | Inr d \<Rightarrow> length (convMessages d) > 0 \<and> convTitle d \<noteq> [] \<and>
        list_all (\<lambda>m. contentText (msgContent m) \<noteq> []) (convMessages d)) \<and>
   isl (ChatGPTParser_parseFromHtml sampleEnv world0 blankMarkup None)"
proof -
  have "\<not> isl (parseConversationFromHtml sampleEnv world0 twoTurnMarkup
                 ''https://chatgpt.com/share/abc'')"
    by code_simp
  then obtain c where c: "parseConversationFromHtml sampleEnv world0 twoTurnMarkup
      ''https://chatgpt.com/share/abc'' = Inr c"
    by (cases "parseConversationFromHtml sampleEnv world0 twoTurnMarkup
      ''https://chatgpt.com/share/abc''") auto
  have "\<not> isl (ChatGPTParser_parseFromHtml sampleEnv world0 twoTurnMarkup None)"
    by code_simp
  then obtain d where d: "ChatGPTParser_parseFromHtml sampleEnv world0 twoTurnMarkup
      None = Inr d"
    by (cases "ChatGPTParser_parseFromHtml sampleEnv world0 twoTurnMarkup None") auto
  have b1: "list_all (\<lambda>e. trim (contentText (extractMessageContent e)) = [])
      (firstSelection (load sampleEnv blankMarkup) messageSelectors)"
    by code_simp
  have b2: "list_all (\<lambda>e. trim (contentText (ChatGPTParser_extractMessageContent e)) = [])
      (selectAll (load sampleEnv blankMarkup) PARSING_SELECTORS_chatgpt_messages)"
    by code_simp
  note good = returned_conversation_valid[where ev = sampleEnv and w = world0
      and htmlText = twoTurnMarkup and url = "''https://chatgpt.com/share/abc''" and c = c]
  note good' = returned_conversation_valid[where ev = sampleEnv and w = world0
      and htmlText = twoTurnMarkup and ourl = None and d = d]
  note bad = returned_conversation_valid[where ev = sampleEnv and w = world0
      and htmlText = blankMarkup and url = "''https://chatgpt.com/share/abc''"
      and ourl = None and c = c and d = d]
  from good c have 1: "length (convMessages c) > 0 \<and> convTitle c \<noteq> [] \<and>
        list_all (\<lambda>m. contentText (msgContent m) \<noteq> []) (convMessages c)"
    by (simp add: list_all_iff)
  from good' d have 2: "length (convMessages d) > 0 \<and> convTitle d \<noteq> [] \<and>
        list_all (\<lambda>m. contentText (msgContent m) \<noteq> []) (convMessages d)"
    by (simp add: list_all_iff)
  from bad b1 have 3: "parseConversationFromHtml sampleEnv world0 blankMarkup
      ''https://chatgpt.com/share/abc'' = Inl NoMessagesFound"
    by (simp add: list_all_iff)
  from bad b2 have 4: "isl (ChatGPTParser_parseFromHtml sampleEnv world0 blankMarkup None)"
    by (auto simp: list_all_iff)
  from 1 2 3 4 c d show ?thesis by simp
qed

section \<open>The two-turn scenario\<close>

text \<open>
  C2. Take any page in which exactly two elements carry the attribute
  \<open>data-message-author-role\<close>: first a user container whose text is the greeting, then an
  assistant container that holds exactly one \<open>code\<close> element, a fenced code block in a
  recognisable language. The block is longer than ten characters after trimming, and its
  class attribute \<open>cls\<close> (empty when the element has none) either starts with the word
  \<open>language-javascript\<close>, or names no language at all (it contains neither \<open>language-\<close> nor
  \<open>lang-\<close>) while the code holds \<open>import\<close> and \<open>from\<close>. Then \<open>parseConversationFromHtml\<close>
  returns a conversation with exactly two messages: the first has role user and the
  greeting as text, the second has role assistant and exactly one artifact, of type code,
  with language \<open>javascript\<close>.
\<close>

theorem two_turn_scenario:
  assumes "selectAll (load ev htmlText) (HasAttr ''data-message-author-role'') = [u, a]"
    and "attr (snd u) ''data-message-author-role'' = Some ''user''"
    and "textOf (snd u) = helloText"
    and "attr (snd a) ''data-message-author-role'' = Some ''assistant''"
    and "findSel a (Tag ''code'') = [c]"
    and "10 < length (trim (textOf (snd c)))"
    and "(case attr (snd c) ''class'' of None \<Rightarrow> [] | Some v \<Rightarrow> v) = cls"
    and "(cls = ''language-javascript'' @ rest \<and> (rest = [] \<or> \<not> isWord (hd rest))) \<or>
         (\<not> strIncludes cls ''language-'' \<and> \<not> strIncludes cls ''lang-'' \<and>
          strIncludes (trim (textOf (snd c))) ''import '' \<and>
          strIncludes (trim (textOf (snd c))) ''from '')"
  shows "\<exists>conv. parseConversationFromHtml ev w htmlText url = Inr conv \<and>
           length (convMessages conv) = 2 \<and>
           msgRole (convMessages conv ! 0) = User \<and>
           contentText (msgContent (convMessages conv ! 0)) = helloText \<and>
           msgRole (convMessages conv ! 1) = Assistant \<and>
           contentArtifacts (msgContent (convMessages conv ! 1)) =
             Some [\<lparr>artType = Code, artContent = trim (textOf (snd c)),
                     artLanguage = Some ''javascript''\<rparr>]"
proof -
  let ?doc = "load ev htmlText"
  let ?art = "\<lparr>artType = Code, artContent = trim (textOf (snd c)),
                artLanguage = Some ''javascript''\<rparr>"
  have sel: "firstSelection ?doc messageSelectors = [u, a]"
    using firstSelection_role[of ?doc] assms(1) by simp
  have roles: "extractMessageRole u = User" "extractMessageRole a = Assistant"
    by (simp_all add: extractMessageRole_def assms(2,4))
  have utext: "contentText (extractMessageContent u) = helloText"
    by (simp add: extractMessageContent_def Let_def assms(3) helloText_clean)
  have ukeep: "keepsText (extractMessageContent u)"
    by (simp add: keepsText_extractMessageContent assms(3) nonblank_helloText)
  from assms(6) have "trim (textOf (snd c)) \<noteq> []" by auto
  then have "nonblank (textOf (snd c))" by (simp add: trim_nonempty)
  moreover have "c \<in> set (findSel a (Tag ''code''))" by (simp add: assms(5))
  ultimately have "nonblank (textOf (snd a))" by (rule nonblank_findSel[rotated])
  then have akeep: "keepsText (extractMessageContent a)"
    by (simp add: keepsText_extractMessageContent)
  have lang: "codeLanguage (snd c) (trim (textOf (snd c))) = Some ''javascript''"
    using assms(7,8) by (rule codeLanguage_javascript)
  have "findSel a (Either (Tag ''code'') (Tag ''pre'')) \<noteq> []"
    by (rule findSel_weaken[of "Tag ''code''"]) (simp_all add: assms(5))
  then have aarts: "contentArtifacts (extractMessageContent a) = Some [?art]"
    using assms(6)
    by (simp add: extractMessageContent_def Let_def codeArtifacts_filter assms(5)
        codeArtifactOf_def lang)
  let ?ms = "fst (extractMessages ev w ?doc)"
  have "map roleContent ?ms =
      [(User, extractMessageContent u), (Assistant, extractMessageContent a)]"
    unfolding extractMessages_fst sel by (simp add: roles ukeep akeep)
  from two_messages[OF this] utext aarts
  have ms: "length ?ms = 2 \<and> msgRole (?ms ! 0) = User
      \<and> contentText (msgContent (?ms ! 0)) = helloText
      \<and> msgRole (?ms ! 1) = Assistant
      \<and> contentArtifacts (msgContent (?ms ! 1)) = Some [?art]"
    by simp
  then have "?ms \<noteq> []" by auto
  then obtain conv where conv: "parseConversationFromHtml ev w htmlText url = Inr conv"
    by (auto simp: parseConversationFromHtml_def Let_def split_beta)
  from parseConversationFromHtml_Inr(1)[OF conv] have "convMessages conv = ?ms" by simp
  with ms conv show ?thesis by auto
qed

text \<open>
  The run on the two-turn page, whose code block has no class and is recognised by its
  content, and the run on the page whose code block is recognised by its class.
\<close>

theorem two_turn_scenario_witness:
  "(case parseConversationFromHtml sampleEnv world0 twoTurnMarkup ''https://chatgpt.com/share/abc'' of
      Inl err \<Rightarrow> False
    | Inr conv \<Rightarrow> length (convMessages conv) = 2 \<and>
        msgRole (convMessages conv ! 0) = User \<and>
        contentText (msgContent (convMessages conv ! 0))
          = ''Hello! Can you help me understand how React hooks work?'' \<and>
        msgRole (convMessages conv ! 1) = Assistant \<and>
        contentArtifacts (msgContent (convMessages conv ! 1)) =
          Some [\<lparr>artType = Code, artContent = counterCode, artLanguage = Some ''javascript''\<rparr>]) \<and>
   (case parseConversationFromHtml sampleEnv world0 hintedMarkup ''https://chatgpt.com/share/abc'' of
      Inl err \<Rightarrow> False
    | Inr conv \<Rightarrow> length (convMessages conv) = 2 \<and>
        msgRole (convMessages conv ! 0) = User \<and>
        contentText (msgContent (convMessages conv ! 0))
          = ''Hello! Can you help me understand how React hooks work?'' \<and>
        msgRole (convMessages conv ! 1) = Assistant \<and>
        contentArtifacts (msgContent (convMessages conv ! 1)) =
          Some [\<lparr>artType = Code, artContent = ''const answer = 6 * 7;'',
                  artLanguage = Some ''javascript''\<rparr>])"
proof -
  let ?sel = "selectAll twoTurnPage (HasAttr ''data-message-author-role'')"
  let ?u = "?sel ! 0"
  let ?a = "?sel ! 1"
  let ?c = "findSel ?a (Tag ''code'') ! 0"
  have 1: "selectAll (load sampleEnv twoTurnMarkup) (HasAttr ''data-message-author-role'')
      = [?u, ?a]"
    by code_simp
  have 2: "attr (snd ?u) ''data-message-author-role'' = Some ''user''" by code_simp
  have 3: "textOf (snd ?u) = helloText" by code_simp
  have 4: "attr (snd ?a) ''data-message-author-role'' = Some ''assistant''" by code_simp
  have 5: "findSel ?a (Tag ''code'') = [?c]" by code_simp
  have 6: "10 < length (trim (textOf (snd ?c)))" by code_simp
  have 7: "(case attr (snd ?c) ''class'' of None \<Rightarrow> [] | Some v \<Rightarrow> v) = []" by code_simp
  have 8: "([] = ''language-javascript'' @ [] \<and> ([] = [] \<or> \<not> isWord (hd []))) \<or>
         (\<not> strIncludes [] ''language-'' \<and> \<not> strIncludes [] ''lang-'' \<and>
          strIncludes (trim (textOf (snd ?c))) ''import '' \<and>
          strIncludes (trim (textOf (snd ?c))) ''from '')"
    by code_simp
  have 9: "trim (textOf (snd ?c)) = counterCode" by code_simp
  let ?sel' = "selectAll hintedPage (HasAttr ''data-message-author-role'')"
  let ?u' = "?sel' ! 0"
  let ?a' = "?sel' ! 1"
  let ?c' = "findSel ?a' (Tag ''code'') ! 0"
  have h1: "selectAll (load sampleEnv hintedMarkup) (HasAttr ''data-message-author-role'')
      = [?u', ?a']"
    by code_simp
  have h2: "attr (snd ?u') ''data-message-author-role'' = Some ''user''" by code_simp
  have h3: "textOf (snd ?u') = helloText" by code_simp
  have h4: "attr (snd ?a') ''data-message-author-role'' = Some ''assistant''" by code_simp
  have h5: "findSel ?a' (Tag ''code'') = [?c']" by code_simp
  have h6: "10 < length (trim (textOf (snd ?c')))" by code_simp
  have h7: "(case attr (snd ?c') ''class'' of None \<Rightarrow> [] | Some v \<Rightarrow> v)
      = ''language-javascript hljs''" by code_simp
  have h8: "(''language-javascript hljs'' = ''language-javascript'' @ '' hljs''
           \<and> ('' hljs'' = [] \<or> \<not> isWord (hd '' hljs''))) \<or>
         (\<not> strIncludes ''language-javascript hljs'' ''language-''
          \<and> \<not> strIncludes ''language-javascript hljs'' ''lang-'' \<and>
          strIncludes (trim (textOf (snd ?c'))) ''import '' \<and>
          strIncludes (trim (textOf (snd ?c'))) ''from '')"
    by code_simp
  have h9: "trim (textOf (snd ?c')) = ''const answer = 6 * 7;''" by code_simp
  from two_turn_scenario[OF 1 2 3 4 5 6 7 8, of world0 "''https://chatgpt.com/share/abc''"] 9
  have first: "(case parseConversationFromHtml sampleEnv world0 twoTurnMarkup
        ''https://chatgpt.com/share/abc'' of
      Inl err \<Rightarrow> False
    | Inr conv \<Rightarrow> length (convMessages conv) = 2 \<and>
        msgRole (convMessages conv ! 0) = User \<and>
        contentText (msgContent (convMessages conv ! 0))
          = ''Hello! Can you help me understand how React hooks work?'' \<and>
        msgRole (convMessages conv ! 1) = Assistant \<and>
        contentArtifacts (msgContent (convMessages conv ! 1)) =
          Some [\<lparr>artType = Code, artContent = counterCode, artLanguage = Some ''javascript''\<rparr>])"
    by (auto simp: helloText_def)
  from two_turn_scenario[OF h1 h2 h3 h4 h5 h6 h7 h8, of world0 "''https://chatgpt.com/share/abc''"] h9
  have second: "(case parseConversationFromHtml sampleEnv world0 hintedMarkup
        ''https://chatgpt.com/share/abc'' of
      Inl err \<Rightarrow> False
    | Inr conv \<Rightarrow> length (convMessages conv) = 2 \<and>
        msgRole (convMessages conv ! 0) = User \<and>
        contentText (msgContent (convMessages conv ! 0))
          = ''Hello! Can you help me understand how React hooks work?'' \<and>
        msgRole (convMessages conv ! 1) = Assistant \<and>
        contentArtifacts (msgContent (convMessages conv ! 1)) =
          Some [\<lparr>artType = Code, artContent = ''const answer = 6 * 7;'',
                  artLanguage = Some ''javascript''\<rparr>])"
    by (auto simp: helloText_def)
  from first second show ?thesis by (rule conjI)
qed

section \<open>The order of the messages\<close>


section \<open>The URL at the input boundary\<close>




section \<open>A URL of no supported platform\<close>

text \<open>
  C5. For a URL (a string that \<open>new URL\<close> accepts once trimmed) that matches none of the
  four platform patterns, \<open>validateChatURL\<close> returns an invalid result whose error is the
  unsupported-platform message and whose first suggestion lists the names of the
  supported platforms; it carries no platform, and \<open>detectPlatform\<close> returns null.
\<close>

theorem unsupported_platform:
  assumes "trim url \<noteq> []" and "urlParses ev (trim url)"
    and "list_all (\<lambda>(pf, config). matchPattern (pfPattern config) (trim url) = None) PLATFORMS"
  shows "validateChatURL ev url =
           \<lparr>isValid = False, resPlatform = None, resChatId = None,
            resError = Some ERROR_MESSAGES_UNSUPPORTED_PLATFORM,
            resSuggestions = Some [''Supported platforms: ChatGPT, Claude, Gemini, Perplexity'',
              ''Make sure you'' @ [CHR 0x27] @ ''re using a shared chat link'',
              ''Check that the URL format matches the platform'' @ [CHR 0x27]
                @ ''s sharing format'']\<rparr>
         \<and> detectPlatform ev url = None"
proof -
  from assms(1) have "url \<noteq> []" by (auto simp: trim_Nil)
  moreover from assms(3) have "matchPlatforms PLATFORMS (trim url) = None"
    by (simp add: matchPlatforms_None)
  moreover have "joinWith '', '' (map (\<lambda>(pf, config). pfName config) PLATFORMS)
      = ''ChatGPT, Claude, Gemini, Perplexity''"
    by (simp add: PLATFORMS_def)
  ultimately show ?thesis
    using assms(1,2) by (simp add: validateChatURL_def detectPlatform_def Let_def)
qed

theorem unsupported_platform_witness:
  "validateChatURL sampleEnv ''https://example.com/chat/123'' =
           \<lparr>isValid = False, resPlatform = None, resChatId = None,
            resError = Some ''This platform is not yet supported'',
            resSuggestions = Some [''Supported platforms: ChatGPT, Claude, Gemini, Perplexity'',
              ''Make sure you'' @ [CHR 0x27] @ ''re using a shared chat link'',
              ''Check that the URL format matches the platform'' @ [CHR 0x27]
                @ ''s sharing format'']\<rparr>
   \<and> detectPlatform sampleEnv ''https://example.com/chat/123'' = None"
proof -
  have 1: "trim ''https://example.com/chat/123'' \<noteq> []" by code_simp
  have 2: "urlParses sampleEnv (trim ''https://example.com/chat/123'')" by code_simp
  have 3: "list_all (\<lambda>(pf, config). matchPattern (pfPattern config)
      (trim ''https://example.com/chat/123'') = None) PLATFORMS" by code_simp
  from unsupported_platform[OF 1 2 3] show ?thesis
    by (simp add: ERROR_MESSAGES_UNSUPPORTED_PLATFORM_def)
qed

section \<open>The role of a container whose attribute names no role\<close>




section \<open>Code artifacts\<close>

text \<open>
  C7. The artifacts of a message are built from its \<open>code\<close> elements, in order, and an
  element yields an artifact only when its trimmed text is longer than the parser's
  threshold; the others are dropped and do not appear among the artifacts. The threshold
  is 10 characters in \<open>api/parse-conversation.ts\<close> and 0 in \<open>ChatGPTParser\<close> (which
  looks at the \<open>code\<close> elements inside a \<open>pre\<close> that is the content element or lies below
  it, and keeps every non-empty one).
\<close>

theorem artifacts_above_threshold:
  "artifactsOf (extractMessageContent e) =
     map codeArtifactOf
       (filter (\<lambda>c. 10 < length (trim (textOf (snd c)))) (findSel e (Tag ''code''))) \<and>
   list_all (\<lambda>a. artType a = Code \<and> 10 < length (artContent a))
     (artifactsOf (extractMessageContent e)) \<and>
   artifactsOf (ChatGPTParser_extractMessageContent e) =
     map ChatGPTParser_codeArtifactOf
       (filter (\<lambda>c. 0 < length (trim (textOf (snd c))))
          (findSel (contentElementOf e contentSelectors) (Desc (Tag ''pre'') (Tag ''code'')))) \<and>
   list_all (\<lambda>a. artType a = Code \<and> 0 < length (artContent a))
     (artifactsOf (ChatGPTParser_extractMessageContent e))"
proof -
  have guard: "findSel e (Either (Tag ''code'') (Tag ''pre'')) = [] \<Longrightarrow> findSel e (Tag ''code'') = []"
    using findSel_weaken[of "Tag ''code''" "Either (Tag ''code'') (Tag ''pre'')" e] by auto
  have a: "artifactsOf (extractMessageContent e) =
     map codeArtifactOf
       (filter (\<lambda>c. 10 < length (trim (textOf (snd c)))) (findSel e (Tag ''code'')))"
    by (auto simp: artifactsOf_def extractMessageContent_def Let_def codeArtifacts_filter guard)
  have guard': "\<And>x. findSel x (Either (Tag ''pre'') (Either (Tag ''code'') (Class ''code-block''))) = []
      \<Longrightarrow> findSel x (Desc (Tag ''pre'') (Tag ''code'')) = []"
    using findSel_weaken[of "Desc (Tag ''pre'') (Tag ''code'')"
        "Either (Tag ''pre'') (Either (Tag ''code'') (Class ''code-block''))"] by auto
  have b: "artifactsOf (ChatGPTParser_extractMessageContent e) =
     map ChatGPTParser_codeArtifactOf
       (filter (\<lambda>c. 0 < length (trim (textOf (snd c))))
          (findSel (contentElementOf e contentSelectors) (Desc (Tag ''pre'') (Tag ''code''))))"
    by (auto simp: artifactsOf_def ChatGPTParser_extractMessageContent_def Let_def
        ChatGPTParser_codeArtifacts_filter guard')
  show ?thesis
    unfolding a b
    by (simp add: list_all_iff codeArtifactOf_def ChatGPTParser_codeArtifactOf_def)
qed

text \<open>
  The two containers of the sample page. In the first the block of one letter is dropped
  by \<open>extractMessageContent\<close> and kept by \<open>ChatGPTParser\<close>; in the second the block of
  three letters, whose \<open>pre\<close> is the content element, is dropped by \<open>extractMessageContent\<close>
  and kept by \<open>ChatGPTParser\<close>, its language read from the class of the \<open>pre\<close>.
\<close>

theorem artifacts_above_threshold_witness:
  "map (\<lambda>e. artifactsOf (extractMessageContent e))
     (selectAll blocksPage (HasAttr ''data-message-author-role'')) =
     [[\<lparr>artType = Code, artContent = ''print(1 + 2 + 3)'', artLanguage = Some ''python''\<rparr>], []] \<and>
   map (\<lambda>e. artifactsOf (ChatGPTParser_extractMessageContent e))
     (selectAll blocksPage PARSING_SELECTORS_chatgpt_messages) =
     [[\<lparr>artType = Code, artContent = ''x'', artLanguage = None\<rparr>,
       \<lparr>artType = Code, artContent = ''print(1 + 2 + 3)'', artLanguage = Some ''python''\<rparr>],
      [\<lparr>artType = Code, artContent = ''abc'', artLanguage = Some ''x''\<rparr>]]"
proof -
  let ?sel = "selectAll blocksPage (HasAttr ''data-message-author-role'')"
  let ?e1 = "?sel ! 0"
  let ?e2 = "?sel ! 1"
  have s1: "?sel = [?e1, ?e2]" by code_simp
  have s2: "selectAll blocksPage PARSING_SELECTORS_chatgpt_messages = [?e1, ?e2]" by code_simp
  have a1: "map codeArtifactOf
       (filter (\<lambda>c. 10 < length (trim (textOf (snd c)))) (findSel ?e1 (Tag ''code'')))
     = [\<lparr>artType = Code, artContent = ''print(1 + 2 + 3)'', artLanguage = Some ''python''\<rparr>]"
    by code_simp
  have a2: "map codeArtifactOf
       (filter (\<lambda>c. 10 < length (trim (textOf (snd c)))) (findSel ?e2 (Tag ''code''))) = []"
    by code_simp
  have b1: "map ChatGPTParser_codeArtifactOf
       (filter (\<lambda>c. 0 < length (trim (textOf (snd c))))
          (findSel (contentElementOf ?e1 contentSelectors) (Desc (Tag ''pre'') (Tag ''code''))))
     = [\<lparr>artType = Code, artContent = ''x'', artLanguage = None\<rparr>,
        \<lparr>artType = Code, artContent = ''print(1 + 2 + 3)'', artLanguage = Some ''python''\<rparr>]"
    by code_simp
  have b2: "map ChatGPTParser_codeArtifactOf
       (filter (\<lambda>c. 0 < length (trim (textOf (snd c))))
          (findSel (contentElementOf ?e2 contentSelectors) (Desc (Tag ''pre'') (Tag ''code''))))
     = [\<lparr>artType = Code, artContent = ''abc'', artLanguage = Some ''x''\<rparr>]"
    by code_simp
  from artifacts_above_threshold[of ?e1] a1 b1
  have r1: "artifactsOf (extractMessageContent ?e1)
        = [\<lparr>artType = Code, artContent = ''print(1 + 2 + 3)'', artLanguage = Some ''python''\<rparr>]"
      "artifactsOf (ChatGPTParser_extractMessageContent ?e1)
        = [\<lparr>artType = Code, artContent = ''x'', artLanguage = None\<rparr>,
           \<lparr>artType = Code, artContent = ''print(1 + 2 + 3)'', artLanguage = Some ''python''\<rparr>]"
    by simp_all
  from artifacts_above_threshold[of ?e2] a2 b2
  have r2: "artifactsOf (extractMessageContent ?e2) = []"
      "artifactsOf (ChatGPTParser_extractMessageContent ?e2)
        = [\<lparr>artType = Code, artContent = ''abc'', artLanguage = Some ''x''\<rparr>]"
    by simp_all
  have m1: "map (\<lambda>e. artifactsOf (extractMessageContent e)) ?sel
      = [artifactsOf (extractMessageContent ?e1), artifactsOf (extractMessageContent ?e2)]"
    by (subst s1) simp
  have m2: "map (\<lambda>e. artifactsOf (ChatGPTParser_extractMessageContent e))
        (selectAll blocksPage PARSING_SELECTORS_chatgpt_messages)
      = [artifactsOf (ChatGPTParser_extractMessageContent ?e1),
         artifactsOf (ChatGPTParser_extractMessageContent ?e2)]"
    by (subst s2) simp
  show ?thesis
    unfolding m1 m2 r1 r2 by simp
qed

section \<open>CSV escaping\<close>

text \<open>
  C8. A text that holds a comma and a double quote is emitted wrapped in double quotes
  with every double quote of the text doubled (so that un-doubling gives the text back);
  a text with no comma, double quote or line feed is emitted as it is. Every line of the
  generator's output is the role, a comma and the escaped text of one message (then the
  time stamp, when asked for), in the order of the messages; the generator returns its
  output whenever time stamps are off or every message carries a valid date.
\<close>

theorem CSV_escaping:
  "(CHR '','' \<in> set t \<and> CHR 0x22 \<in> set t \<longrightarrow>
      escapeCSV t = [CHR 0x22] @ doubleQuotes t @ [CHR 0x22] \<and> undouble (doubleQuotes t) = t) \<and>
   (CHR '','' \<notin> set t \<and> CHR 0x22 \<notin> set t \<and> CHR 0x0A \<notin> set t \<longrightarrow> escapeCSV t = t) \<and>
   (CSVGenerator_generate fmt conv opts = Inr out \<longrightarrow>
      out = (if includeTimestamps opts = Some False then ''Role,Content''
             else ''Role,Content,Timestamp'') @ [CHR 0x0A]
            @ concat (map (csvLine fmt (includeTimestamps opts \<noteq> Some False)) (convMessages conv))) \<and>
   (includeTimestamps opts = Some False
      \<or> (\<forall>m \<in> set (convMessages conv). msgTimestamp m \<noteq> InvalidDate) \<longrightarrow>
      (\<exists>res. CSVGenerator_generate fmt conv opts = Inr res))"
proof (intro conjI impI)
  assume "CHR '','' \<in> set t \<and> CHR 0x22 \<in> set t"
  then show "escapeCSV t = [CHR 0x22] @ doubleQuotes t @ [CHR 0x22]"
    by (simp add: escapeCSV_def strIncludes_char)
next
  show "undouble (doubleQuotes t) = t" by (rule undouble_doubleQuotes)
next
  assume "CHR '','' \<notin> set t \<and> CHR 0x22 \<notin> set t \<and> CHR 0x0A \<notin> set t"
  then show "escapeCSV t = t"
    by (simp add: escapeCSV_def strIncludes_char)
next
  assume gen: "CSVGenerator_generate fmt conv opts = Inr out"
  show "out = (if includeTimestamps opts = Some False then ''Role,Content''
             else ''Role,Content,Timestamp'') @ [CHR 0x0A]
            @ concat (map (csvLine fmt (includeTimestamps opts \<noteq> Some False)) (convMessages conv))"
  proof (cases "includeTimestamps opts = Some False")
    case True
    with gen have "csvRows fmt False (''Role,Content'' @ [CHR 0x0A]) (convMessages conv) = Inr out"
      by (simp add: CSVGenerator_generate_def)
    from csvRows_lines[OF this] True show ?thesis by simp
  next
    case False
    then have "(case includeTimestamps opts of None \<Rightarrow> True | Some b \<Rightarrow> b) = True"
      by (cases "includeTimestamps opts") auto
    with gen have "csvRows fmt True (''Role,Content,Timestamp'' @ [CHR 0x0A]) (convMessages conv) = Inr out"
      by (simp add: CSVGenerator_generate_def)
    from csvRows_lines[OF this] False show ?thesis by simp
  qed
next
  assume ok: "includeTimestamps opts = Some False
      \<or> (\<forall>m \<in> set (convMessages conv). msgTimestamp m \<noteq> InvalidDate)"
  then have "\<not> (case includeTimestamps opts of None \<Rightarrow> True | Some b \<Rightarrow> b)
      \<or> (\<forall>m \<in> set (convMessages conv). msgTimestamp m \<noteq> InvalidDate)"
    by auto
  from csvRows_returns[OF this] show "\<exists>res. CSVGenerator_generate fmt conv opts = Inr res"
    unfolding CSVGenerator_generate_def Let_def by blast
qed

theorem CSV_escaping_witness:
  "escapeCSV (''Hi, '' @ [CHR 0x22] @ ''you'' @ [CHR 0x22])
     = [CHR 0x22] @ ''Hi, '' @ [CHR 0x22, CHR 0x22] @ ''you'' @ [CHR 0x22, CHR 0x22] @ [CHR 0x22]
   \<and> escapeCSV ''plain text'' = ''plain text''
   \<and> CSVGenerator_generate (\<lambda>t p. ''1970-01-01 00:00:00'') quotedConversation
        \<lparr>includeMetadata = None, includeTimestamps = None\<rparr>
     = Inr (''Role,Content,Timestamp'' @ [CHR 0x0A] @ ''user,'' @ [CHR 0x22] @ ''Hi, ''
            @ [CHR 0x22, CHR 0x22] @ ''you'' @ [CHR 0x22, CHR 0x22] @ [CHR 0x22]
            @ '',1970-01-01 00:00:00'' @ [CHR 0x0A])"
proof -
  have a: "escapeCSV (''Hi, '' @ [CHR 0x22] @ ''you'' @ [CHR 0x22])
     = [CHR 0x22] @ ''Hi, '' @ [CHR 0x22, CHR 0x22] @ ''you'' @ [CHR 0x22, CHR 0x22] @ [CHR 0x22]"
    using CSV_escaping[of "''Hi, '' @ [CHR 0x22] @ ''you'' @ [CHR 0x22]"]
    by (simp add: doubleQuotes_def)
  have b: "escapeCSV ''plain text'' = ''plain text''"
    using CSV_escaping[of "''plain text''"] by simp
  obtain res where r: "CSVGenerator_generate (\<lambda>t p. ''1970-01-01 00:00:00'') quotedConversation
        \<lparr>includeMetadata = None, includeTimestamps = None\<rparr> = Inr res"
    using CSV_escaping[where opts = "\<lparr>includeMetadata = None, includeTimestamps = None\<rparr>"
        and conv = quotedConversation and fmt = "\<lambda>t p. ''1970-01-01 00:00:00''"]
    by (auto simp: quotedConversation_def quotedMessage_def)
  have c: "res = ''Role,Content,Timestamp'' @ [CHR 0x0A] @ ''user,'' @ [CHR 0x22] @ ''Hi, ''
            @ [CHR 0x22, CHR 0x22] @ ''you'' @ [CHR 0x22, CHR 0x22] @ [CHR 0x22]
            @ '',1970-01-01 00:00:00'' @ [CHR 0x0A]"
    using r CSV_escaping[where opts = "\<lparr>includeMetadata = None, includeTimestamps = None\<rparr>"
        and conv = quotedConversation and fmt = "\<lambda>t p. ''1970-01-01 00:00:00''"
        and out = res] a
    by (simp add: quotedConversation_def quotedMessage_def csvLine_def roleString_def
        escapeCSV_def strIncludes_char)
  from a b r c show ?thesis by simp
qed

section \<open>The JSON round trip\<close>




section \<open>The metadata block\<close>

text \<open>
  C10. In a conversation returned by either parser the metadata repeat the top-level
  fields: \<open>metadata.messageCount\<close> is the number of messages, \<open>metadata.title\<close> the title,
  \<open>metadata.platform\<close> the platform, and \<open>metadata.url\<close> the address the parse was called
  with (in \<open>ChatGPTParser.parseFromHtml\<close> the optional argument, as it was given).
\<close>

theorem metadata_consistent:
  "(parseConversationFromHtml ev w htmlText url = Inr c \<longrightarrow>
      metaMessageCount (convMetadata c) = length (convMessages c) \<and>
      metaTitle (convMetadata c) = convTitle c \<and>
      metaPlatform (convMetadata c) = convPlatform c \<and>
      metaUrl (convMetadata c) = Some url) \<and>
   (ChatGPTParser_parseFromHtml ev w htmlText ourl = Inr d \<longrightarrow>
      metaMessageCount (convMetadata d) = length (convMessages d) \<and>
      metaTitle (convMetadata d) = convTitle d \<and>
      metaPlatform (convMetadata d) = convPlatform d \<and>
      metaUrl (convMetadata d) = ourl)"
  by (auto simp: parseConversationFromHtml_Inr ChatGPTParser_parseFromHtml_Inr)

theorem metadata_consistent_witness:
  "(case parseConversationFromHtml sampleEnv world0 twoTurnMarkup ''https://chatgpt.com/share/abc'' of
      Inl err \<Rightarrow> False
    | Inr c \<Rightarrow> metaMessageCount (convMetadata c) = length (convMessages c) \<and>
        metaTitle (convMetadata c) = convTitle c \<and>
        metaPlatform (convMetadata c) = convPlatform c \<and>
        metaUrl (convMetadata c) = Some ''https://chatgpt.com/share/abc'') \<and>
   (case ChatGPTParser_parseFromHtml sampleEnv world0 twoTurnMarkup
           (Some ''https://chatgpt.com/share/abc'') of
      Inl err \<Rightarrow> False
    | Inr d \<Rightarrow> metaMessageCount (convMetadata d) = length (convMessages d) \<and>
        metaTitle (convMetadata d) = convTitle d \<and>
        metaPlatform (convMetadata d) = convPlatform d \<and>
        metaUrl (convMetadata d) = Some ''https://chatgpt.com/share/abc'')"
proof -
  have "\<not> isl (parseConversationFromHtml sampleEnv world0 twoTurnMarkup
                 ''https://chatgpt.com/share/abc'')"
    by code_simp
  then obtain c where c: "parseConversationFromHtml sampleEnv world0 twoTurnMarkup
      ''https://chatgpt.com/share/abc'' = Inr c"
    by (cases "parseConversationFromHtml sampleEnv world0 twoTurnMarkup
      ''https://chatgpt.com/share/abc''") auto
  have "\<not> isl (ChatGPTParser_parseFromHtml sampleEnv world0 twoTurnMarkup
                 (Some ''https://chatgpt.com/share/abc''))"
    by code_simp
  then obtain d where d: "ChatGPTParser_parseFromHtml sampleEnv world0 twoTurnMarkup
      (Some ''https://chatgpt.com/share/abc'') = Inr d"
    by (cases "ChatGPTParser_parseFromHtml sampleEnv world0 twoTurnMarkup
      (Some ''https://chatgpt.com/share/abc'')") auto
  from c d metadata_consistent[where ev = sampleEnv and w = world0
      and htmlText = twoTurnMarkup and url = "''https://chatgpt.com/share/abc''" and c = c]
    metadata_consistent[where ev = sampleEnv and w = world0
      and htmlText = twoTurnMarkup and ourl = "Some ''https://chatgpt.com/share/abc''"
      and d = d]
  show ?thesis by simp
qed

end
